theory Spec2Isabelle
  imports Main "HOL-Library.Word"
begin

unbundle bit_operations_syntax

section \<open>Errors\<close>

text \<open>
  Go errors are values. The constructors are the error values and error types the
  repository creates or inspects (a Go byte is an Isabelle \<open>char\<close>, both 8 bits,
  so a byte slice and a Go string are both a \<open>string\<close>): \<open>io.EOF\<close>, \<open>context.DeadlineExceeded\<close>, an error
  type that has a \<open>Timeout() bool\<close> method (with what the method returns), any other
  leaf error, an error wrapped by \<open>fmt.Errorf("...: %w", err)\<close>, the repository's
  \<open>RequestError{err}\<close> (whose \<open>Unwrap\<close> gives \<open>err\<close>) and \<open>nxdial.ErrInternalResolution\<close>.
\<close>

type_synonym byte = char

datatype error =
    EOF
  | DeadlineExceeded
  | HasTimeout string bool
  | Plain string
  | Wrapped string error
  | RequestError error
  | ErrInternalResolution

section \<open>response.go: the response body wrapper\<close>

text \<open>
  The wrapped \<open>io.ReadCloser\<close> is the body stream of the transport. Its behaviour is a
  script: what the successive \<open>Read\<close> calls will deliver, each entry a run of bytes and
  the error (if any) that comes with its last byte. A \<open>Read\<close> into a buffer of \<open>k\<close>
  bytes takes at most \<open>k\<close> bytes of the first entry; once the script is used up every
  \<open>Read\<close> returns \<open>(0, io.EOF)\<close>. Every call made on the stream is recorded in
  \<open>calls\<close>, in order: \<open>CRead k n e\<close> is a \<open>Read\<close> into a buffer of \<open>k\<close> bytes that
  returned \<open>n\<close> bytes and the error \<open>e\<close>.
\<close>

datatype call = CRead nat nat "error option" | CClose

record stream =
  script :: "(byte list \<times> error option) list"
  closeErr :: "error option"
  calls :: "call list"

definition stream_Read :: "stream \<Rightarrow> nat \<Rightarrow> (byte list \<times> error option) \<times> stream" where
  "stream_Read s k =
     (case script s of
        [] \<Rightarrow> (([], Some EOF), s\<lparr>calls := calls s @ [CRead k 0 (Some EOF)]\<rparr>)
      | (bs, e) # rest \<Rightarrow>
          if length bs \<le> k
          then ((bs, e), s\<lparr>script := rest, calls := calls s @ [CRead k (length bs) e]\<rparr>)
          else ((take k bs, None),
                s\<lparr>script := (drop k bs, e) # rest, calls := calls s @ [CRead k k None]\<rparr>))"

definition stream_Close :: "stream \<Rightarrow> error option \<times> stream" where
  "stream_Close s = (closeErr s, s\<lparr>calls := calls s @ [CClose]\<rparr>)"

text \<open>\<open>discardReadCloser\<close>: the embedded reader and the \<open>eof\<close> flag.\<close>

record discardReadCloser =
  ReadCloser :: stream
  eof :: bool

definition drc_Read :: "discardReadCloser \<Rightarrow> nat \<Rightarrow> (byte list \<times> error option) \<times> discardReadCloser" where
  "drc_Read r k =
     (case stream_Read (ReadCloser r) k of
        ((bs, err), s') \<Rightarrow>
          ((bs, err), r\<lparr>ReadCloser := s', eof := (if err = Some EOF then True else eof r)\<rparr>))"

text \<open>
  \<open>discard\<close> is \<open>io.Copy(io.Discard, io.LimitReader(r, 16*1024))\<close>. \<open>io.Discard\<close> reads
  its source through a buffer of 8192 bytes until the source returns an error; the
  limited reader returns \<open>io.EOF\<close> once its budget \<open>N\<close> is used up, and otherwise
  passes on a \<open>Read\<close> of at most \<open>N\<close> bytes and lowers \<open>N\<close> by what was read.
\<close>

function discard_loop :: "nat \<Rightarrow> stream \<Rightarrow> stream" where
  "discard_loop N s =
     (if N = 0 then s
      else (case stream_Read s (min 8192 N) of
              ((bs, err), s') \<Rightarrow>
                if err \<noteq> None then s' else discard_loop (N - length bs) s'))"
  by pat_completeness auto
termination
  apply (relation "measure (\<lambda>(N, s). N + length (script s))")
   apply simp
  subgoal for N s
    by (cases "script s") (auto simp: stream_Read_def split: if_splits)
  done

declare discard_loop.simps [simp del]

definition discard :: "stream \<Rightarrow> stream" where
  "discard r = discard_loop (16 * 1024) r"

definition drc_Close :: "discardReadCloser \<Rightarrow> error option \<times> discardReadCloser" where
  "drc_Close r =
     (let s = (if \<not> eof r then discard (ReadCloser r) else ReadCloser r)
      in case stream_Close s of (e, s') \<Rightarrow> (e, r\<lparr>ReadCloser := s'\<rparr>))"

text \<open>\<open>Response\<close>: the fields of the embedded \<open>*http.Response\<close> the repository reads.\<close>

record Response =
  StatusCode :: int
  Header :: "string \<rightharpoonup> string list"
  Body :: "discardReadCloser option"

definition Response_Close :: "Response \<Rightarrow> error option \<times> Response" where
  "Response_Close r =
     (case Body r of
        None \<Rightarrow> (None, r)
      | Some b \<Rightarrow> (case drc_Close b of (e, b') \<Rightarrow> (e, r\<lparr>Body := Some b'\<rparr>)))"

section \<open>body.go: re-openable request bodies\<close>

text \<open>
  An \<open>io.ReadSeeker\<close> (a \<open>*bytes.Reader\<close>, a \<open>*strings.Reader\<close>, a file): its
  content, the read offset, and the error its \<open>Seek\<close> returns when it fails. The
  object is shared by every stream opened on it, so its state is passed along.
\<close>

record seeker =
  content :: string
  pos :: nat
  seekFail :: "error option"

definition seeker_SeekStart :: "seeker \<Rightarrow> error option \<times> seeker" where
  "seeker_SeekStart r =
     (case seekFail r of Some e \<Rightarrow> (Some e, r) | None \<Rightarrow> (None, r\<lparr>pos := 0\<rparr>))"

definition seeker_Read :: "seeker \<Rightarrow> nat \<Rightarrow> (string \<times> error option) \<times> seeker" where
  "seeker_Read r k =
     (if length (content r) \<le> pos r then (([], Some EOF), r)
      else ((take k (drop (pos r) (content r)), None),
            r\<lparr>pos := pos r + min k (length (content r) - pos r)\<rparr>))"

text \<open>
  The streams a \<open>BodyFunc\<close> of this file returns: \<open>io.NopCloser(r)\<close> and
  \<open>io.NopCloser(io.LimitReader(r, n))\<close>, the latter with the bytes it may still read.
\<close>

datatype body_stream = NopCloser | NopCloserLimit nat

fun body_stream_Read ::
  "body_stream \<Rightarrow> seeker \<Rightarrow> nat \<Rightarrow> (string \<times> error option) \<times> body_stream \<times> seeker" where
  "body_stream_Read NopCloser r k =
     (case seeker_Read r k of (res, r') \<Rightarrow> (res, NopCloser, r'))"
| "body_stream_Read (NopCloserLimit N) r k =
     (if N = 0 then (([], Some EOF), NopCloserLimit N, r)
      else (case seeker_Read r (min k N) of
              ((bs, e), r') \<Rightarrow> ((bs, e), NopCloserLimit (N - length bs), r')))"

text \<open>
  The closures: \<open>bodyFuncFromFile(r, n)\<close>, \<open>bodyFuncFromReadSeeker(r)\<close> and the
  \<open>Open\<close> method of a caller's \<open>ReadOpener\<close>. A closure is called on the state of
  the reader it captured. Both results of a \<open>BodyFunc\<close> are kept, since the source
  returns the stream together with the error of \<open>Seek\<close>.
\<close>

datatype BodyFunc =
    bodyFuncFromFile nat
  | bodyFuncFromReadSeeker
  | callerOpen "seeker \<Rightarrow> (body_stream \<times> error option) \<times> seeker"

fun call_BodyFunc :: "BodyFunc \<Rightarrow> seeker \<Rightarrow> (body_stream \<times> error option) \<times> seeker" where
  "call_BodyFunc (bodyFuncFromFile n) r =
     (case seeker_SeekStart r of (err, r') \<Rightarrow> ((NopCloserLimit n, err), r'))"
| "call_BodyFunc bodyFuncFromReadSeeker r =
     (case seeker_SeekStart r of (err, r') \<Rightarrow> ((NopCloser, err), r'))"
| "call_BodyFunc (callerOpen f) r = f r"

record body_closure =
  fn :: BodyFunc
  captured :: seeker

definition Open :: "body_closure \<Rightarrow> (body_stream \<times> error option) \<times> body_closure" where
  "Open c = (case call_BodyFunc (fn c) (captured c) of (res, r') \<Rightarrow> (res, c\<lparr>captured := r'\<rparr>))"

text \<open>
  The values \<open>GetBody\<close> switches on, in the order of its type switch. \<open>methods\<close>
  are the \<open>Size\<close> and \<open>Len\<close> methods a value has, with what they return
  (\<open>getLen\<close> asserts for them in this order). A file carries the result of
  \<open>Stat().Size()\<close>. \<open>url.Values.Encode\<close> is a parameter.
\<close>

record methods =
  mSize :: "int option"
  mLen64 :: "int option"
  mLen :: "int option"

definition getLen :: "methods \<Rightarrow> int" where
  "getLen v =
     (case mSize v of Some n \<Rightarrow> n
      | None \<Rightarrow> (case mLen64 v of Some n \<Rightarrow> n
         | None \<Rightarrow> (case mLen v of Some n \<Rightarrow> n | None \<Rightarrow> -1)))"

type_synonym url_Values = "(string \<times> string list) list"

datatype body_value =
    VNil
  | VReadOpener "seeker \<Rightarrow> (body_stream \<times> error option) \<times> seeker" seeker methods
  | VSeekableFile seeker "error + nat"
  | VOsFile seeker "error + nat"
  | VReadSeeker seeker methods
  | VBytes string
  | VString string
  | VValues url_Values
  | VOther string

definition bodyFuncFromReadSeekerSize :: "string \<Rightarrow> body_closure option \<times> int \<times> error option" where
  "bodyFuncFromReadSeekerSize s =
     (Some \<lparr>fn = bodyFuncFromReadSeeker, captured = \<lparr>content = s, pos = 0, seekFail = None\<rparr>\<rparr>,
      int (length s), None)"

fun GetBody :: "(url_Values \<Rightarrow> string) \<Rightarrow> body_value \<Rightarrow> body_closure option \<times> int \<times> error option" where
  "GetBody enc VNil = (None, 0, None)"
| "GetBody enc (VReadOpener f r m) = (Some \<lparr>fn = callerOpen f, captured = r\<rparr>, getLen m, None)"
| "GetBody enc (VSeekableFile r st) =
     (case st of
        Inl err \<Rightarrow> (None, 0, Some (Wrapped ''nxhttp: failed to stat file to use as body'' err))
      | Inr n \<Rightarrow> (Some \<lparr>fn = bodyFuncFromFile n, captured = r\<rparr>, int n, None))"
| "GetBody enc (VOsFile r st) =
     (case st of
        Inl err \<Rightarrow> (None, 0, Some (Wrapped ''nxhttp: failed to stat file to use as body'' err))
      | Inr n \<Rightarrow> (Some \<lparr>fn = bodyFuncFromFile n, captured = r\<rparr>, int n, None))"
| "GetBody enc (VReadSeeker r m) = (Some \<lparr>fn = bodyFuncFromReadSeeker, captured = r\<rparr>, getLen m, None)"
| "GetBody enc (VBytes b) = bodyFuncFromReadSeekerSize b"
| "GetBody enc (VString s) = bodyFuncFromReadSeekerSize s"
| "GetBody enc (VValues vs) = bodyFuncFromReadSeekerSize (enc vs)"
| "GetBody enc (VOther ty) = (None, 0, Some (Plain (''nxhttp: cannot handle body of type '' @ ty)))"

text \<open>
  Reading a stream to its end, as \<open>io.ReadAll\<close> does: \<open>Read\<close> into the free part of
  a buffer (never empty, here \<open>m + 1\<close> bytes) until an error; \<open>io.EOF\<close> is the
  normal end.
\<close>

function read_all ::
  "nat \<Rightarrow> body_stream \<Rightarrow> seeker \<Rightarrow> string \<Rightarrow> (string \<times> error option) \<times> body_stream \<times> seeker" where
  "read_all m rc r acc =
     (case body_stream_Read rc r (Suc m) of
        ((bs, e), rc', r') \<Rightarrow>
          (case e of
             Some err \<Rightarrow> ((acc @ bs, if err = EOF then None else Some err), rc', r')
           | None \<Rightarrow> read_all m rc' r' (acc @ bs)))"
  by pat_completeness auto
termination
  apply (relation "measure (\<lambda>(m, rc, r, acc). length (content r) - pos r)")
   apply simp
  subgoal for m rc r acc
    by (cases rc) (auto simp: seeker_Read_def split: if_splits)
  done

declare read_all.simps [simp del]

text \<open>
  What a caller that replays the body sees: \<open>N\<close> times, open the body and read the
  stream to its end; each round gives the bytes read, or the error of the open or of
  the read.
\<close>

fun replay :: "nat \<Rightarrow> nat \<Rightarrow> body_closure \<Rightarrow> (error + string) list" where
  "replay 0 m c = []"
| "replay (Suc N) m c =
     (case Open c of
        ((rc, Some err), c') \<Rightarrow> Inl err # replay N m c'
      | ((rc, None), c') \<Rightarrow>
          (case read_all m rc (captured c') [] of
             ((bs, Some err), rc', r') \<Rightarrow> Inl err # replay N m (c'\<lparr>captured := r'\<rparr>)
           | ((bs, None), rc', r') \<Rightarrow> Inr bs # replay N m (c'\<lparr>captured := r'\<rparr>)))"


section \<open>Vocabulary for the calls made on a stream\<close>

text \<open>The bytes the reads of a list of calls returned, in total.\<close>

fun bytes_read :: "call list \<Rightarrow> nat" where
  "bytes_read [] = 0"
| "bytes_read (CRead k n e # cs) = n + bytes_read cs"
| "bytes_read (CClose # cs) = bytes_read cs"

text \<open>
  What a stream still has to deliver before its first error: the bytes of its script up
  to and including the first entry that carries an error, all of them when none does
  (the stream then ends with \<open>io.EOF\<close>).
\<close>

fun upto_error :: "(byte list \<times> error option) list \<Rightarrow> byte list" where
  "upto_error [] = []"
| "upto_error ((bs, e) # rest) = (if e = None then bs @ upto_error rest else bs)"

text \<open>
  \<open>drain N cs\<close>: the calls \<open>cs\<close> are a drain with a budget of \<open>N\<close> bytes. They are reads
  only; each is made while budget is left, into a buffer of 8192 bytes or of what is left
  of the budget if that is less; the reads go on until one returns an error or the
  budget is used up, and stop there.
\<close>

fun drain :: "nat \<Rightarrow> call list \<Rightarrow> bool" where
  "drain N [] = (N = 0)"
| "drain N (CRead k n e # cs) =
     (0 < N \<and> k = min 8192 N \<and> n \<le> k \<and> (if e = None then drain (N - n) cs else cs = []))"
| "drain N (CClose # cs) = False"

section \<open>nxdial: the restricted dialer\<close>

text \<open>
  \<open>netip.Addr\<close> and \<open>netip.Prefix\<close> belong to Go's standard library; they are
  modelled after its documentation. An address is the zero \<open>Addr\<close>, an IPv4 address
  (32 bits) or an IPv6 address (128 bits) with a zone (the empty string when it has
  none). A prefix is an address and, as in the library, the number of bits plus one
  (zero for an invalid prefix).
\<close>

datatype Addr = AddrZero | Addr4 "32 word" | Addr6 "128 word" string

fun Addr_BitLen :: "Addr \<Rightarrow> nat" where
  "Addr_BitLen AddrZero = 0"
| "Addr_BitLen (Addr4 w) = 32"
| "Addr_BitLen (Addr6 w z) = 128"

fun Addr_hasZone :: "Addr \<Rightarrow> bool" where
  "Addr_hasZone (Addr6 w z) = (z \<noteq> [])"
| "Addr_hasZone a = False"

fun Addr_Is4In6 :: "Addr \<Rightarrow> bool" where
  "Addr_Is4In6 (Addr6 w z) = (drop_bit 32 w = 0xffff)"
| "Addr_Is4In6 a = False"

fun Addr_Unmap :: "Addr \<Rightarrow> Addr" where
  "Addr_Unmap (Addr6 w z) = (if drop_bit 32 w = 0xffff then Addr4 (ucast w) else Addr6 w z)"
| "Addr_Unmap a = a"

definition v4 :: "32 word \<Rightarrow> nat \<Rightarrow> 8 word" where
  "v4 w i = ucast (drop_bit ((3 - i) * 8) w)"

definition v6 :: "128 word \<Rightarrow> nat \<Rightarrow> 8 word" where
  "v6 w i = ucast (drop_bit ((15 - i) * 8) w)"

definition v6u16 :: "128 word \<Rightarrow> nat \<Rightarrow> 16 word" where
  "v6u16 w i = ucast (drop_bit ((7 - i) * 16) w)"

definition Addr_IsPrivate :: "Addr \<Rightarrow> bool" where
  "Addr_IsPrivate a =
     (case Addr_Unmap a of
        Addr4 w \<Rightarrow> v4 w 0 = 10 \<or> (v4 w 0 = 172 \<and> v4 w 1 AND 0xf0 = 16) \<or> (v4 w 0 = 192 \<and> v4 w 1 = 168)
      | Addr6 w z \<Rightarrow> v6 w 0 AND 0xfe = 0xfc
      | AddrZero \<Rightarrow> False)"

definition Addr_IsLoopback :: "Addr \<Rightarrow> bool" where
  "Addr_IsLoopback a =
     (case Addr_Unmap a of
        Addr4 w \<Rightarrow> v4 w 0 = 127
      | Addr6 w z \<Rightarrow> w = 1
      | AddrZero \<Rightarrow> False)"

definition Addr_IsLinkLocalUnicast :: "Addr \<Rightarrow> bool" where
  "Addr_IsLinkLocalUnicast a =
     (case Addr_Unmap a of
        Addr4 w \<Rightarrow> v4 w 0 = 169 \<and> v4 w 1 = 254
      | Addr6 w z \<Rightarrow> v6u16 w 0 AND 0xffc0 = 0xfe80
      | AddrZero \<Rightarrow> False)"

definition Addr_IsLinkLocalMulticast :: "Addr \<Rightarrow> bool" where
  "Addr_IsLinkLocalMulticast a =
     (case Addr_Unmap a of
        Addr4 w \<Rightarrow> v4 w 0 = 224 \<and> v4 w 1 = 0 \<and> v4 w 2 = 0
      | Addr6 w z \<Rightarrow> v6u16 w 0 AND 0xff0f = 0xff02
      | AddrZero \<Rightarrow> False)"

definition Addr_IsInterfaceLocalMulticast :: "Addr \<Rightarrow> bool" where
  "Addr_IsInterfaceLocalMulticast a =
     (case a of
        Addr6 w z \<Rightarrow> \<not> Addr_Is4In6 a \<and> v6u16 w 0 AND 0xff0f = 0xff01
      | _ \<Rightarrow> False)"

record Prefix =
  ip :: Addr
  bitsPlusOne :: nat

definition Prefix_Bits :: "Prefix \<Rightarrow> int" where
  "Prefix_Bits p = int (bitsPlusOne p) - 1"

text \<open>\<open>mask6 n\<close>: the 128-bit mask with the leading \<open>n\<close> bits set.\<close>

definition mask6 :: "int \<Rightarrow> 128 word" where
  "mask6 n = NOT (mask (128 - nat n))"

text \<open>
  \<open>Prefix.Contains\<close>: false for an invalid prefix, for an address with a zone, for
  the zero address and across address families; otherwise the leading \<open>Bits()\<close> bits
  of the two addresses are compared.
\<close>

definition Prefix_Contains :: "Prefix \<Rightarrow> Addr \<Rightarrow> bool" where
  "Prefix_Contains p a =
     (if \<not> 0 < bitsPlusOne p \<or> Addr_hasZone a then False
      else if Addr_BitLen (ip p) = 0 \<or> Addr_BitLen a = 0 \<or> Addr_BitLen (ip p) \<noteq> Addr_BitLen a
      then False
      else (case (a, ip p) of
              (Addr4 w, Addr4 pw) \<Rightarrow> drop_bit (nat ((32 - Prefix_Bits p) AND 63)) (w XOR pw) = 0
            | (Addr6 w z, Addr6 pw pz) \<Rightarrow> (w XOR pw) AND mask6 (Prefix_Bits p) = 0
            | _ \<Rightarrow> False))"

record RestrictedDialer =
  AllowedPrefixes :: "Prefix list"
  BlockedPrefixes :: "Prefix list"
  IsPrivate :: bool
  IsLoopback :: bool
  IsLinkLocalUnicast :: bool
  IsLinkLocalMulticast :: bool
  IsInterfaceLocalMulticast :: bool

definition NewRestrictedDialer :: RestrictedDialer where
  "NewRestrictedDialer =
     \<lparr>AllowedPrefixes = [], BlockedPrefixes = [], IsPrivate = True, IsLoopback = True,
      IsLinkLocalUnicast = True, IsLinkLocalMulticast = True, IsInterfaceLocalMulticast = True\<rparr>"

text \<open>The two \<open>for ... range\<close> loops of \<open>IsAllowed\<close>: leave at the first prefix that contains the address.\<close>

fun anyContains :: "Prefix list \<Rightarrow> Addr \<Rightarrow> bool" where
  "anyContains [] addr = False"
| "anyContains (p # ps) addr = (if Prefix_Contains p addr then True else anyContains ps addr)"

definition IsAllowed :: "RestrictedDialer \<Rightarrow> Addr \<Rightarrow> bool" where
  "IsAllowed r addr =
     (if anyContains (AllowedPrefixes r) addr then True
      else if anyContains (BlockedPrefixes r) addr then False
      else if IsPrivate r \<and> Addr_IsPrivate addr then False
      else if IsLoopback r \<and> Addr_IsLoopback addr then False
      else if IsLinkLocalUnicast r \<and> Addr_IsLinkLocalUnicast addr then False
      else if IsLinkLocalMulticast r \<and> Addr_IsLinkLocalMulticast addr then False
      else if IsInterfaceLocalMulticast r \<and> Addr_IsInterfaceLocalMulticast addr then False
      else True)"

text \<open>
  \<open>DialContext\<close>. The embedded \<open>net.Dialer\<close> and \<open>netip.ParseAddrPort\<close> are
  parameters: \<open>dial env k\<close> is the result of the \<open>k\<close>-th dial of the underlying dialer,
  and the state counts the dials made and lists the connections closed.
\<close>

record Conn =
  connId :: nat
  RemoteAddr :: string

record dial_env =
  dial :: "nat \<Rightarrow> string \<Rightarrow> string \<Rightarrow> error + Conn"
  ParseAddrPort :: "string \<Rightarrow> error + (Addr \<times> nat)"

record net_state =
  dials :: nat
  closedConns :: "nat list"

definition DialContext ::
  "RestrictedDialer \<Rightarrow> dial_env \<Rightarrow> net_state \<Rightarrow> string \<Rightarrow> string
     \<Rightarrow> (Conn option \<times> error option) \<times> net_state" where
  "DialContext r env st network addr =
     (let st' = st\<lparr>dials := dials st + 1\<rparr> in
      case dial env (dials st) network addr of
        Inl err \<Rightarrow> ((None, Some err), st')
      | Inr c \<Rightarrow>
          (case ParseAddrPort env (RemoteAddr c) of
             Inl perr \<Rightarrow> ((Some c, Some (Wrapped ''nxhttp: failed to parse remote address'' perr)), st')
           | Inr (a, port) \<Rightarrow>
               if \<not> IsAllowed r a then ((Some c, Some ErrInternalResolution), st')
               else ((Some c, None), st')))"

text \<open>The two dialers of the tests and of the specification's examples.\<close>

definition dialer_only_1111 :: RestrictedDialer where
  "dialer_only_1111 =
     \<lparr>AllowedPrefixes = [\<lparr>ip = Addr4 0x01010101, bitsPlusOne = 33\<rparr>],
      BlockedPrefixes = [\<lparr>ip = Addr4 0, bitsPlusOne = 1\<rparr>, \<lparr>ip = Addr6 0 [], bitsPlusOne = 1\<rparr>],
      IsPrivate = False, IsLoopback = False, IsLinkLocalUnicast = False,
      IsLinkLocalMulticast = False, IsInterfaceLocalMulticast = False\<rparr>"

definition dialer_private_only :: RestrictedDialer where
  "dialer_private_only =
     \<lparr>AllowedPrefixes = [], BlockedPrefixes = [], IsPrivate = True, IsLoopback = False,
      IsLinkLocalUnicast = False, IsLinkLocalMulticast = False, IsInterfaceLocalMulticast = False\<rparr>"

section \<open>httpheader: the Retry-After header\<close>

text \<open>
  A \<open>time.Duration\<close> is an \<open>int64\<close> count of nanoseconds. It is modelled as an
  \<open>int\<close>; \<open>wrap64\<close> is the wrap-around of \<open>int64\<close> arithmetic and \<open>sat64\<close> the
  saturation of \<open>time.Time.Sub\<close>, which returns the largest (smallest) \<open>Duration\<close>
  when the difference of the two instants does not fit.
\<close>

type_synonym Duration = int

definition Second :: Duration where
  "Second = 1000000000"

definition wrap64 :: "int \<Rightarrow> int" where
  "wrap64 x = (x + 2 ^ 63) mod 2 ^ 64 - 2 ^ 63"

definition sat64 :: "int \<Rightarrow> int" where
  "sat64 x = (if x < - (2 ^ 63) then - (2 ^ 63) else if 2 ^ 63 - 1 < x then 2 ^ 63 - 1 else x)"

text \<open>
  \<open>strconv.ParseInt(s, 10, 64)\<close>: an optional sign, then one or more decimal digits
  (with base 10 given, no underscore and no prefix is accepted); the error is
  \<open>ErrSyntax\<close> for any other string and \<open>ErrRange\<close> when the value is not an \<open>int64\<close>.
\<close>

definition ErrSyntax :: error where
  "ErrSyntax = Plain ''strconv.ParseInt: invalid syntax''"

definition ErrRange :: error where
  "ErrRange = Plain ''strconv.ParseInt: value out of range''"

definition is_digit :: "char \<Rightarrow> bool" where
  "is_digit c = (48 \<le> (of_char c :: nat) \<and> (of_char c :: nat) \<le> 57)"

definition digits_val :: "string \<Rightarrow> nat" where
  "digits_val ds = foldl (\<lambda>n c. 10 * n + (of_char c - 48)) 0 ds"

definition ParseInt :: "string \<Rightarrow> error + int" where
  "ParseInt s =
     (case s of
        [] \<Rightarrow> Inl ErrSyntax
      | c # cs \<Rightarrow>
          (let neg = (c = CHR ''-'');
               s0 = (if c = CHR ''+'' \<or> c = CHR ''-'' then cs else s)
           in if s0 = [] then Inl ErrSyntax
              else if list_all is_digit s0 then
                (let un = digits_val s0
                 in if neg then (if 2 ^ 63 < un then Inl ErrRange else Inr (- int un))
                    else (if 2 ^ 63 \<le> un then Inl ErrRange else Inr (int un)))
              else Inl ErrSyntax))"

text \<open>
  \<open>http.ParseTime\<close> and the clock are parameters: \<open>ParseTime env v\<close> is the instant
  \<open>v\<close> denotes, in nanoseconds since the epoch, or the error of \<open>http.ParseTime\<close>;
  \<open>Now env\<close> is the instant \<open>time.Now()\<close> returns. \<open>time.Until(t)\<close> is
  \<open>t.Sub(time.Now())\<close>.
\<close>

record time_env =
  ParseTime :: "string \<Rightarrow> error + int"
  Now :: int

definition Until :: "time_env \<Rightarrow> int \<Rightarrow> Duration" where
  "Until env t = sat64 (t - Now env)"

definition ParseRetryAfter :: "time_env \<Rightarrow> string \<Rightarrow> error + Duration" where
  "ParseRetryAfter env v =
     (if v = [] then Inr 0
      else case ParseInt v of
             Inr i \<Rightarrow>
               if i < 0 then Inl (Plain ''nxhttp: got negative Retry-After value in response'')
               else Inr (wrap64 (i * Second))
           | Inl _ \<Rightarrow>
               (case ParseTime env v of
                  Inl err \<Rightarrow>
                    Inl (Wrapped ''nxhttp: failed to parse Retry-After header from response'' err)
                | Inr t \<Rightarrow>
                    (let until = Until env t
                     in if until < 0 then Inl (Plain ''nxhttp: Retry-After date is in the past'')
                        else Inr until)))"

text \<open>\<open>httpheader.Get\<close>: the first value of the key, the empty string when there is none.\<close>

definition httpheader_Get :: "(string \<rightharpoonup> string list) \<Rightarrow> string \<Rightarrow> string" where
  "httpheader_Get h key =
     (case h key of None \<Rightarrow> [] | Some v \<Rightarrow> (case v of [] \<Rightarrow> [] | x # xs \<Rightarrow> x))"

definition retryAfter :: "time_env \<Rightarrow> Response \<Rightarrow> error + Duration" where
  "retryAfter env r = ParseRetryAfter env (httpheader_Get (Header r) ''Retry-After'')"

text \<open>A clock for the examples: no string is a date, the time is the epoch.\<close>

definition no_dates :: time_env where
  "no_dates = \<lparr>ParseTime = (\<lambda>v. Inl (Plain ''parsing time: cannot parse'')), Now = 0\<rparr>"


section \<open>errors.go: timeouts\<close>

text \<open>
  \<open>errors.Is(err, target)\<close> walks the \<open>Unwrap\<close> chain of \<open>err\<close> and compares each error
  with \<open>target\<close>. \<open>errors.As(err, &tErr)\<close> for \<open>tErr interface{ Timeout() bool }\<close>
  finds the first error of the chain that has a \<open>Timeout\<close> method;
  \<open>errors_As_Timeout\<close> is what that method returns, or \<open>None\<close> when no error of the
  chain has one. Of the errors of this development \<open>context.DeadlineExceeded\<close> has the
  method (it returns true) and so has \<open>HasTimeout\<close>; \<open>RequestError\<close> and the errors
  of \<open>fmt.Errorf\<close> have only \<open>Unwrap\<close>.
\<close>

fun errors_Is :: "error \<Rightarrow> error \<Rightarrow> bool" where
  "errors_Is (Wrapped m e) target = (if Wrapped m e = target then True else errors_Is e target)"
| "errors_Is (RequestError e) target = (if RequestError e = target then True else errors_Is e target)"
| "errors_Is e target = (e = target)"

fun errors_As_Timeout :: "error \<Rightarrow> bool option" where
  "errors_As_Timeout (HasTimeout m b) = Some b"
| "errors_As_Timeout DeadlineExceeded = Some True"
| "errors_As_Timeout (Wrapped m e) = errors_As_Timeout e"
| "errors_As_Timeout (RequestError e) = errors_As_Timeout e"
| "errors_As_Timeout e = None"

definition isTimeout :: "error \<Rightarrow> bool" where
  "isTimeout err =
     (if errors_Is err DeadlineExceeded then True
      else (case errors_As_Timeout err of Some b \<Rightarrow> b | None \<Rightarrow> False))"

section \<open>client.go: the retrying executor\<close>

text \<open>
  The options a \<open>Client\<close> embeds. \<open>backoff\<close> is a value of the library's type
  \<open>nxretry.Backoff\<close>, only handed to \<open>nxretry.New\<close>. \<open>onError\<close> returns the error to
  go on with (\<open>None\<close> is nil); \<open>onErrorResponse\<close> is nil or a hook, which gets the
  response, may read or close its body, and returns an error or nil: the hook is given
  as what it returns together with the response as it leaves it.
\<close>

record 'b options =
  backoff :: 'b
  maxAttempts :: nat
  minRetryAfter :: Duration
  maxRetryAfter :: Duration
  onError :: "error \<Rightarrow> error option"
  onErrorResponse :: "(Response \<Rightarrow> error option \<times> Response) option"

text \<open>
  The retrier of the library \<open>nxretry\<close> is a parameter. \<open>New n b\<close> is
  \<open>nxretry.New(nxretry.MaxAttempts(n), b)\<close>. \<open>for range rty.Next(ctx)\<close> asks the
  retrier before every iteration: \<open>Next rty\<close> is \<open>None\<close> when the iterator ends, and
  \<open>Some (d, rty')\<close> when it yields another iteration after having waited \<open>d\<close>. What the
  context does to the iterator is part of that behaviour. \<open>Override d rty\<close> is
  \<open>rty.Override(d)\<close>.
\<close>

record ('r, 'b) nxretry =
  New :: "nat \<Rightarrow> 'b \<Rightarrow> 'r"
  Next :: "'r \<Rightarrow> (Duration \<times> 'r) option"
  Override :: "Duration \<Rightarrow> 'r \<Rightarrow> 'r"

text \<open>
  What the transport returns: the fields of \<open>*http.Response\<close> the executor reads, the
  body not yet wrapped.
\<close>

record http_Response =
  resStatusCode :: int
  resHeader :: "string \<rightharpoonup> string list"
  resBody :: "stream option"

text \<open>
  The surroundings of one call of \<open>Do\<close>: the error of the request's context when \<open>Do\<close>
  is entered; the request's \<open>body\<close>, nil or a \<open>BodyFunc\<close>, given as the error (if any)
  its \<open>k\<close>-th call returns; what the \<open>k\<close>-th call of \<open>Do\<close> of the \<open>http.Client\<close> in use
  returns, an error or a response that may be nil; and the clock after \<open>k\<close> such calls.
  The default headers and the transport of the request's options decide which request
  is sent through which client; they are part of \<open>clientDo\<close>.
\<close>

record world =
  ctxErr :: "error option"
  openBody :: "(nat \<Rightarrow> error option) option"
  clientDo :: "nat \<Rightarrow> error + http_Response option"
  clock :: "nat \<Rightarrow> time_env"

text \<open>
  What a call of \<open>Do\<close> has done so far: how often it opened the body, how often it
  called the client, the waits of the retrier before its iterations, and the responses
  it received, each in the state \<open>Do\<close> left it in.
\<close>

record do_state =
  bodyOpens :: nat
  netCalls :: nat
  waits :: "Duration list"
  responses :: "Response list"

definition doRequest :: "world \<Rightarrow> do_state \<Rightarrow> (Response option \<times> error option) \<times> do_state" where
  "doRequest w st =
     (case (case openBody w of
              None \<Rightarrow> (None, st)
            | Some body \<Rightarrow> (body (bodyOpens st), st\<lparr>bodyOpens := bodyOpens st + 1\<rparr>)) of
        (Some err, st1) \<Rightarrow> ((None, Some (RequestError err)), st1)
      | (None, st1) \<Rightarrow>
          (case clientDo w (netCalls st1) of
             Inl err \<Rightarrow> ((None, Some (RequestError err)), st1\<lparr>netCalls := netCalls st1 + 1\<rparr>)
           | Inr None \<Rightarrow> ((None, None), st1\<lparr>netCalls := netCalls st1 + 1\<rparr>)
           | Inr (Some res) \<Rightarrow>
               ((Some \<lparr>StatusCode = resStatusCode res, Header = resHeader res,
                       Body = (case resBody res of
                                 None \<Rightarrow> None
                               | Some b \<Rightarrow> Some \<lparr>ReadCloser = b, eof = False\<rparr>)\<rparr>,
                 None),
                st1\<lparr>netCalls := netCalls st1 + 1\<rparr>)))"

text \<open>
  The \<open>switch\<close> on the status code, as whether it leaves the \<open>for\<close> loop. Its five
  cases are empty, and the \<open>break\<close> of its \<open>default\<close> case ends the \<open>switch\<close>
  statement, not the loop around it.
\<close>

definition status_switch :: "int \<Rightarrow> bool" where
  "status_switch code =
     (if code = 429 then False
      else if code = 500 then False
      else if code = 502 then False
      else if code = 503 then False
      else if code = 504 then False
      else False)"

text \<open>
  The result of \<open>Do\<close>: the two values it returns, or the panic of \<open>r.StatusCode\<close> on
  the nil response that \<open>doRequest\<close> returns with a nil error when the client returned
  a nil response.
\<close>

datatype outcome = Return "Response option" "error option" | Panic

text \<open>
  The loop of \<open>Do\<close>, with the variables \<open>r\<close> and \<open>doErr\<close>. With an unlimited number of
  attempts the loop may go on for ever, so it runs on fuel, one unit an iteration;
  \<open>None\<close> is a run that the fuel did not suffice for.
\<close>

fun Do_loop ::
  "nat \<Rightarrow> ('r, 'b) nxretry \<Rightarrow> 'b options \<Rightarrow> world \<Rightarrow> 'r \<Rightarrow> Response option \<Rightarrow> error option
     \<Rightarrow> do_state \<Rightarrow> (outcome \<times> do_state) option" where
  "Do_loop 0 L c w rty r doErr st = None"
| "Do_loop (Suc fuel) L c w rty r doErr st =
     (case Next L rty of
        None \<Rightarrow> Some (Return r doErr, st)
      | Some (d0, rty1) \<Rightarrow>
          (case doRequest w (st\<lparr>waits := waits st @ [d0]\<rparr>) of
             ((r1, Some e), st1) \<Rightarrow>
               (case onError c e of
                  None \<Rightarrow> Do_loop fuel L c w rty1 r1 None st1
                | Some e' \<Rightarrow>
                    if isTimeout e' then Do_loop fuel L c w rty1 r1 (Some e') st1
                    else Some (Return r1 (Some e'), st1))
           | ((None, None), st1) \<Rightarrow> Some (Panic, st1)
           | ((Some resp, None), st1) \<Rightarrow>
               if 200 \<le> StatusCode resp \<and> StatusCode resp \<le> 299
               then Some (Return (Some resp) None, st1\<lparr>responses := responses st1 @ [resp]\<rparr>)
               else
                 (case (case onErrorResponse c of
                          None \<Rightarrow> (None, resp)
                        | Some hook \<Rightarrow> hook resp) of
                    (Some e, resp') \<Rightarrow>
                      Some (Return (Some resp') (Some e),
                            st1\<lparr>responses := responses st1 @ [resp']\<rparr>)
                  | (None, resp') \<Rightarrow>
                      (let st2 = st1\<lparr>responses := responses st1 @ [resp']\<rparr>
                       in if status_switch (StatusCode resp')
                          then Some (Return (Some resp') None, st2)
                          else
                            (case retryAfter (clock w (netCalls st2)) resp' of
                               Inl err \<Rightarrow> Do_loop fuel L c w rty1 (Some resp') None st2
                             | Inr d \<Rightarrow>
                                 if minRetryAfter c < d
                                 then Do_loop fuel L c w
                                        (Override L
                                           (if 0 < maxRetryAfter c \<and> maxRetryAfter c < d
                                            then maxRetryAfter c else d)
                                           rty1)
                                        (Some resp') None st2
                                 else Do_loop fuel L c w rty1 (Some resp') None st2)))))"

definition Do ::
  "nat \<Rightarrow> ('r, 'b) nxretry \<Rightarrow> 'b options \<Rightarrow> world \<Rightarrow> (outcome \<times> do_state) option" where
  "Do fuel L c w =
     (case ctxErr w of
        Some err \<Rightarrow>
          Some (Return None (Some (Wrapped ''nxhttp: context already has an error'' err)),
                \<lparr>bodyOpens = 0, netCalls = 0, waits = [], responses = []\<rparr>)
      | None \<Rightarrow>
          Do_loop fuel L c w (New L (maxAttempts c) (backoff c)) None None
            \<lparr>bodyOpens = 0, netCalls = 0, waits = [], responses = []\<rparr>)"

text \<open>
  The responses of the first \<open>n\<close> calls of the client, each as \<open>doRequest\<close> wraps it
  and, when its status is not 2xx and there is an \<open>onErrorResponse\<close> hook, as that
  hook leaves it.
\<close>

definition received :: "'b options \<Rightarrow> world \<Rightarrow> nat \<Rightarrow> Response list" where
  "received c w n =
     concat (map (\<lambda>k. case clientDo w k of
                         Inr (Some res) \<Rightarrow>
                           (let resp = \<lparr>StatusCode = resStatusCode res, Header = resHeader res,
                                        Body = (case resBody res of
                                                  None \<Rightarrow> None
                                                | Some b \<Rightarrow> Some \<lparr>ReadCloser = b, eof = False\<rparr>)\<rparr>
                            in if 200 \<le> StatusCode resp \<and> StatusCode resp \<le> 299 then [resp]
                               else (case onErrorResponse c of
                                       None \<Rightarrow> [resp]
                                     | Some hook \<Rightarrow> [snd (hook resp)]))
                       | _ \<Rightarrow> [])
                 [0..<n])"

text \<open>
  A retrier to run the executor with: it yields at most \<open>limit\<close> iterations (any number
  when \<open>limit\<close> is 0), the first at once and every other one after the delay of the
  last \<open>Override\<close> since the iteration before, or after the delay of the backoff when
  there was none. A backoff is the delay before the \<open>n\<close>-th retry; \<open>exponential\<close> is
  the default of \<open>setDefaults\<close>, factor 2 from 1 s up to 5 s.
\<close>

record retrier =
  attempts :: nat
  limit :: nat
  schedule :: "nat \<Rightarrow> Duration"
  override :: "Duration option"

definition retrier_Next :: "retrier \<Rightarrow> (Duration \<times> retrier) option" where
  "retrier_Next r =
     (if limit r \<noteq> 0 \<and> limit r \<le> attempts r then None
      else Some (if attempts r = 0 then 0
                 else (case override r of Some d \<Rightarrow> d | None \<Rightarrow> schedule r (attempts r)),
                 r\<lparr>attempts := attempts r + 1, override := None\<rparr>))"

definition example_retry :: "(retrier, nat \<Rightarrow> Duration) nxretry" where
  "example_retry =
     \<lparr>New = (\<lambda>n b. \<lparr>attempts = 0, limit = n, schedule = b, override = None\<rparr>),
      Next = retrier_Next,
      Override = (\<lambda>d r. r\<lparr>override := Some d\<rparr>)\<rparr>"

definition exponential :: "nat \<Rightarrow> Duration" where
  "exponential n = min (5 * Second) (2 ^ (n - 1) * Second)"

text \<open>The options of \<open>newOptions\<close> and \<open>setDefaults\<close>.\<close>

definition default_options :: "(nat \<Rightarrow> Duration) options" where
  "default_options =
     \<lparr>backoff = exponential, maxAttempts = 3, minRetryAfter = 3 * Second,
      maxRetryAfter = 30 * Second, onError = Some, onErrorResponse = None\<rparr>"

text \<open>
  A server for the examples: the \<open>k\<close>-th call gets the \<open>k\<close>-th response of the list,
  every later call the last response; every response has the body \<open>body\<close>, unread.
\<close>

definition respond :: "int \<Rightarrow> (string \<rightharpoonup> string list) \<Rightarrow> http_Response" where
  "respond code h =
     \<lparr>resStatusCode = code, resHeader = h,
      resBody = Some \<lparr>script = [(''body'', None)], closeErr = None, calls = []\<rparr>\<rparr>"

definition server :: "http_Response list \<Rightarrow> http_Response \<Rightarrow> world" where
  "server rs final =
     \<lparr>ctxErr = None, openBody = None,
      clientDo = (\<lambda>k. Inr (Some (if k < length rs then rs ! k else final))),
      clock = (\<lambda>k. no_dates)\<rparr>"

text \<open>
  A server that answers the first call with 429 and the \<open>Retry-After\<close> header \<open>v\<close>
  and every later call with 200; and a request whose body fails to open the first time,
  with the error \<open>e\<close>, and opens ever after, sent to a server that answers 200.
\<close>

definition retry_after_server :: "string \<Rightarrow> world" where
  "retry_after_server v =
     server [respond 429 [''Retry-After'' \<mapsto> [v]]] (respond 200 Map.empty)"

definition failing_body :: "error \<Rightarrow> world" where
  "failing_body e =
     \<lparr>ctxErr = None, openBody = Some (\<lambda>k. if k = 0 then Some e else None),
      clientDo = (\<lambda>k. Inr (Some (respond 200 Map.empty))),
      clock = (\<lambda>k. no_dates)\<rparr>"

text \<open>All definitions of the development are above; the properties follow.\<close>

section \<open>Properties of the response body wrapper\<close>

lemma stream_Read_calls:
  "stream_Read s k = ((bs, err), s') \<Longrightarrow>
     calls s' = calls s @ [CRead k (length bs) err] \<and> length bs \<le> k \<and> closeErr s' = closeErr s"
  by (auto simp: stream_Read_def split: list.splits if_splits prod.splits)

lemma stream_Read_script:
  "stream_Read s k = ((bs, err), s') \<Longrightarrow>
     concat (map fst (script s')) = drop (length bs) (concat (map fst (script s)))
     \<and> (err \<noteq> None \<longrightarrow> upto_error (script s) = bs)
     \<and> (err = None \<longrightarrow> upto_error (script s) = bs @ upto_error (script s'))"
  by (auto simp: stream_Read_def split: list.splits if_splits prod.splits)

lemma drain_no_Close: "drain N cs \<Longrightarrow> CClose \<notin> set cs"
  by (induction N cs rule: drain.induct) (auto split: if_splits)

lemma discard_loop_drain:
  "\<exists>rs. calls (discard_loop N s) = calls s @ rs \<and> drain N rs
      \<and> bytes_read rs = min N (length (upto_error (script s)))
      \<and> concat (map fst (script (discard_loop N s)))
          = drop (bytes_read rs) (concat (map fst (script s)))
      \<and> closeErr (discard_loop N s) = closeErr s"
proof (induction N s rule: discard_loop.induct)
  case (1 N s)
  show ?case
  proof (cases "N = 0")
    case True
    then have "discard_loop N s = s" by (simp add: discard_loop.simps)
    with True show ?thesis by (intro exI [of _ "[]"]) simp
  next
    case False
    obtain bs err s' where rd: "stream_Read s (min 8192 N) = ((bs, err), s')"
      by (metis prod.exhaust)
    note c = stream_Read_calls [OF rd]
    note sc = stream_Read_script [OF rd]
    have len: "length bs \<le> N" using c by simp
    show ?thesis
    proof (cases err)
      case (Some e)
      have dl: "discard_loop N s = s'"
        using False rd Some by (simp add: discard_loop.simps [of N s])
      have up: "upto_error (script s) = bs" using sc Some by simp
      show ?thesis
        unfolding dl up
        using False c sc Some len by (intro exI [of _ "[CRead (min 8192 N) (length bs) err]"]) simp
    next
      case None
      have "\<not> err \<noteq> None" using None by simp
      from "1.IH" [OF False rd [symmetric] refl this]
      obtain rs where rs: "calls (discard_loop (N - length bs) s') = calls s' @ rs"
        "drain (N - length bs) rs"
        "bytes_read rs = min (N - length bs) (length (upto_error (script s')))"
        "concat (map fst (script (discard_loop (N - length bs) s')))
          = drop (bytes_read rs) (concat (map fst (script s')))"
        "closeErr (discard_loop (N - length bs) s') = closeErr s'"
        by auto
      have dl: "discard_loop N s = discard_loop (N - length bs) s'"
        using False rd None by (simp add: discard_loop.simps [of N s])
      have up: "upto_error (script s) = bs @ upto_error (script s')" using sc None by simp
      let ?rs = "CRead (min 8192 N) (length bs) err # rs"
      have a: "calls (discard_loop N s) = calls s @ ?rs"
        unfolding dl using rs(1) c by simp
      have b: "drain N ?rs"
        using False c rs(2) None by simp
      have d: "bytes_read ?rs = min N (length (upto_error (script s)))"
        unfolding up using rs(3) len by simp
      have e: "concat (map fst (script (discard_loop N s)))
          = drop (bytes_read ?rs) (concat (map fst (script s)))"
        unfolding dl using rs(4) sc by (simp add: add.commute)
      have f: "closeErr (discard_loop N s) = closeErr s"
        unfolding dl using rs(5) c by simp
      from a b d e f show ?thesis by blast
    qed
  qed
qed

text \<open>
  C7. A \<open>Read\<close> of the wrapper passes on what the wrapped stream's \<open>Read\<close> returns and
  sets \<open>eof\<close> when that is \<open>io.EOF\<close>; the flag stays set. When \<open>Close\<close> is called with
  \<open>eof\<close> unset, the calls made on the wrapped stream are a drain with a budget of
  16384 bytes, followed by its \<open>Close\<close>: the stream is read, 8192 bytes at a time, until
  a read returns an error (\<open>io.EOF\<close> included) or 16384 bytes have been read. So exactly
  the bytes the stream has before its first error are read, or the first 16384 of
  them, never more than 16384, and the stream is left with the bytes after those. When
  \<open>eof\<close> is set, in particular after a read through the wrapper that got \<open>io.EOF\<close> from
  the stream, \<open>Close\<close> makes no read: its only call is the stream's \<open>Close\<close>, and the
  stream's content is untouched. In both cases \<open>Close\<close> returns what the stream's
  \<open>Close\<close> returns.
\<close>

theorem C7_close_drains_at_most_16KiB:
  "(stream_Read (ReadCloser r) k = ((bs, err), s1) \<longrightarrow>
      drc_Read r k = ((bs, err), r\<lparr>ReadCloser := s1, eof := (eof r \<or> err = Some EOF)\<rparr>))
   \<and> (\<not> eof r \<longrightarrow>
      (\<exists>rs. calls (ReadCloser (snd (drc_Close r))) = calls (ReadCloser r) @ rs @ [CClose]
            \<and> drain 16384 rs
            \<and> CClose \<notin> set rs
            \<and> bytes_read rs \<le> 16384
            \<and> bytes_read rs = min 16384 (length (upto_error (script (ReadCloser r))))
            \<and> concat (map fst (script (ReadCloser (snd (drc_Close r)))))
                = drop (bytes_read rs) (concat (map fst (script (ReadCloser r))))))
   \<and> (eof r \<longrightarrow>
        calls (ReadCloser (snd (drc_Close r))) = calls (ReadCloser r) @ [CClose]
        \<and> script (ReadCloser (snd (drc_Close r))) = script (ReadCloser r))
   \<and> (stream_Read (ReadCloser r) k = ((bs, Some EOF), s1) \<longrightarrow>
        calls (ReadCloser (snd (drc_Close (snd (drc_Read r k)))))
          = calls (ReadCloser r) @ [CRead k (length bs) (Some EOF), CClose])
   \<and> fst (drc_Close r) = closeErr (ReadCloser r)"
proof -
  have c1: "drc_Read r k = ((bs, err), r\<lparr>ReadCloser := s1, eof := (eof r \<or> err = Some EOF)\<rparr>)"
    if "stream_Read (ReadCloser r) k = ((bs, err), s1)"
    using that by (simp add: drc_Read_def)
  obtain rs where rs: "calls (discard (ReadCloser r)) = calls (ReadCloser r) @ rs"
    "drain 16384 rs"
    "bytes_read rs = min 16384 (length (upto_error (script (ReadCloser r))))"
    "concat (map fst (script (discard (ReadCloser r))))
          = drop (bytes_read rs) (concat (map fst (script (ReadCloser r))))"
    "closeErr (discard (ReadCloser r)) = closeErr (ReadCloser r)"
    using discard_loop_drain [of "16 * 1024" "ReadCloser r"] unfolding discard_def by auto
  have c2: "\<exists>rs. calls (ReadCloser (snd (drc_Close r))) = calls (ReadCloser r) @ rs @ [CClose]
            \<and> drain 16384 rs
            \<and> CClose \<notin> set rs
            \<and> bytes_read rs \<le> 16384
            \<and> bytes_read rs = min 16384 (length (upto_error (script (ReadCloser r))))
            \<and> concat (map fst (script (ReadCloser (snd (drc_Close r)))))
                = drop (bytes_read rs) (concat (map fst (script (ReadCloser r))))"
    if "\<not> eof r"
  proof -
    have "calls (ReadCloser (snd (drc_Close r))) = calls (ReadCloser r) @ rs @ [CClose]"
      using that rs(1) by (simp add: drc_Close_def stream_Close_def Let_def)
    moreover have "script (ReadCloser (snd (drc_Close r))) = script (discard (ReadCloser r))"
      using that by (simp add: drc_Close_def stream_Close_def Let_def)
    moreover have "bytes_read rs \<le> 16384" using rs(3) by simp
    ultimately show ?thesis
      using rs(2,3,4) drain_no_Close [OF rs(2)] by (intro exI [of _ rs]) simp
  qed
  have c3: "calls (ReadCloser (snd (drc_Close r))) = calls (ReadCloser r) @ [CClose]
        \<and> script (ReadCloser (snd (drc_Close r))) = script (ReadCloser r)"
    if "eof r"
    using that by (simp add: drc_Close_def stream_Close_def Let_def)
  have c4: "calls (ReadCloser (snd (drc_Close (snd (drc_Read r k)))))
          = calls (ReadCloser r) @ [CRead k (length bs) (Some EOF), CClose]"
    if h: "stream_Read (ReadCloser r) k = ((bs, Some EOF), s1)"
    using stream_Read_calls [OF h]
    by (simp add: drc_Read_def h drc_Close_def stream_Close_def Let_def)
  have c5: "fst (drc_Close r) = closeErr (ReadCloser r)"
    using rs(5) by (simp add: drc_Close_def stream_Close_def Let_def)
  from c1 c2 c3 c4 c5 show ?thesis by blast
qed


theorem C7_close_drains_witness:
  "stream_Read (ReadCloser \<lparr>ReadCloser = \<lparr>script = [], closeErr = None, calls = [CRead 512 3 None]\<rparr>, eof = False\<rparr>) 512
     = (([], Some EOF), \<lparr>script = [], closeErr = None, calls = [CRead 512 3 None, CRead 512 0 (Some EOF)]\<rparr>)
   \<and> calls (ReadCloser (snd (drc_Close (snd (drc_Read
        \<lparr>ReadCloser = \<lparr>script = [], closeErr = None, calls = [CRead 512 3 None]\<rparr>, eof = False\<rparr> 512)))))
       = [CRead 512 3 None, CRead 512 0 (Some EOF), CClose]
   \<and> \<not> eof \<lparr>ReadCloser = \<lparr>script = [(''abc'', None)], closeErr = None, calls = []\<rparr>, eof = False\<rparr>
   \<and> calls (ReadCloser (snd (drc_Close
        \<lparr>ReadCloser = \<lparr>script = [(''abc'', None)], closeErr = None, calls = []\<rparr>, eof = False\<rparr>)))
       = [CRead 8192 3 None, CRead 8192 0 (Some EOF), CClose]
   \<and> \<not> eof \<lparr>ReadCloser = \<lparr>script = [(replicate 20000 (CHR ''x''), None)], closeErr = None, calls = []\<rparr>,
              eof = False\<rparr>
   \<and> calls (ReadCloser (snd (drc_Close
        \<lparr>ReadCloser = \<lparr>script = [(replicate 20000 (CHR ''x''), None)], closeErr = None, calls = []\<rparr>,
          eof = False\<rparr>)))
       = [CRead 8192 8192 None, CRead 8192 8192 None, CClose]
   \<and> script (ReadCloser (snd (drc_Close
        \<lparr>ReadCloser = \<lparr>script = [(replicate 20000 (CHR ''x''), None)], closeErr = None, calls = []\<rparr>,
          eof = False\<rparr>)))
       = [(replicate 3616 (CHR ''x''), None)]
   \<and> eof (snd (drc_Read
        \<lparr>ReadCloser = \<lparr>script = [], closeErr = None, calls = [CRead 512 3 None]\<rparr>, eof = False\<rparr> 512))
   \<and> script (ReadCloser (snd (drc_Close (snd (drc_Read
        \<lparr>ReadCloser = \<lparr>script = [], closeErr = None, calls = [CRead 512 3 None]\<rparr>, eof = False\<rparr> 512)))))
       = []"
proof -
  let ?r0 = "\<lparr>ReadCloser = \<lparr>script = [], closeErr = None, calls = [CRead 512 3 None]\<rparr>, eof = False\<rparr>"
  let ?r1 = "\<lparr>ReadCloser = \<lparr>script = [(''abc'', None)], closeErr = None, calls = []\<rparr>, eof = False\<rparr>"
  let ?r2 = "\<lparr>ReadCloser = \<lparr>script = [(replicate 20000 (CHR ''x''), None)], closeErr = None, calls = []\<rparr>,
              eof = False\<rparr>"
  let ?s1 = "\<lparr>script = [], closeErr = None, calls = [CRead 512 3 None, CRead 512 0 (Some EOF)]\<rparr>"
  have rd: "stream_Read (ReadCloser ?r0) 512 = (([], Some EOF), ?s1)"
    by (simp add: stream_Read_def)
  have e0: "eof (snd (drc_Read ?r0 512))"
    by (simp add: drc_Read_def stream_Read_def)
  note t0 = C7_close_drains_at_most_16KiB [of ?r0 512 "[]" "Some EOF" ?s1]
  note t0' = C7_close_drains_at_most_16KiB [of "snd (drc_Read ?r0 512)" 512 "[]" "Some EOF" ?s1]
  have a: "calls (ReadCloser (snd (drc_Close (snd (drc_Read ?r0 512)))))
       = [CRead 512 3 None, CRead 512 0 (Some EOF), CClose]"
    using t0 [THEN conjunct2, THEN conjunct2, THEN conjunct2, THEN conjunct1, THEN mp, OF rd]
    by simp
  have a': "script (ReadCloser (snd (drc_Close (snd (drc_Read ?r0 512))))) = []"
    using t0' [THEN conjunct2, THEN conjunct2, THEN conjunct1, THEN mp, OF e0, THEN conjunct2]
    by (simp add: drc_Read_def stream_Read_def)
  have d1: "discard \<lparr>script = [(''abc'', None)], closeErr = None, calls = []\<rparr>
      = \<lparr>script = [], closeErr = None, calls = [CRead 8192 3 None, CRead 8192 0 (Some EOF)]\<rparr>"
    by (simp add: discard_def discard_loop.simps stream_Read_def)
  have d2: "discard \<lparr>script = [(replicate 20000 (CHR ''x''), None)], closeErr = None, calls = []\<rparr>
      = \<lparr>script = [(replicate 3616 (CHR ''x''), None)], closeErr = None,
         calls = [CRead 8192 8192 None, CRead 8192 8192 None]\<rparr>"
    by (simp add: discard_def discard_loop.simps stream_Read_def)
  have b: "calls (ReadCloser (snd (drc_Close ?r1)))
       = [CRead 8192 3 None, CRead 8192 0 (Some EOF), CClose]"
    using C7_close_drains_at_most_16KiB [of ?r1 512 "[]" "Some EOF" ?s1, THEN conjunct2, THEN conjunct1]
    by (simp add: drc_Close_def Let_def d1 stream_Close_def)
  have c: "calls (ReadCloser (snd (drc_Close ?r2)))
       = [CRead 8192 8192 None, CRead 8192 8192 None, CClose]
       \<and> script (ReadCloser (snd (drc_Close ?r2))) = [(replicate 3616 (CHR ''x''), None)]"
    using C7_close_drains_at_most_16KiB [of ?r2 512 "[]" "Some EOF" ?s1, THEN conjunct2, THEN conjunct1]
    by (simp add: drc_Close_def Let_def d2 stream_Close_def)
  show ?thesis
    using rd e0 a a' b c by simp
qed

text \<open>
  C10. \<open>Close\<close> on a response whose \<open>Body\<close> is nil returns nil and leaves the
  response as it was: nothing is read and nothing is closed.
\<close>

theorem C10_close_nil_body:
  "Body r = None \<Longrightarrow> Response_Close r = (None, r)"
  by (simp add: Response_Close_def)

theorem C10_close_nil_body_witness:
  "Body \<lparr>StatusCode = 204, Header = Map.empty, Body = None\<rparr> = None
   \<and> Response_Close \<lparr>StatusCode = 204, Header = Map.empty, Body = None\<rparr>
       = (None, \<lparr>StatusCode = 204, Header = Map.empty, Body = None\<rparr>)"
  using C10_close_nil_body [of "\<lparr>StatusCode = 204, Header = Map.empty, Body = None\<rparr>"]
  by simp

section \<open>Properties of the request bodies\<close>

lemma read_all_NopCloser:
  "read_all m NopCloser r acc =
     ((acc @ drop (pos r) (content r), None), NopCloser, r\<lparr>pos := max (pos r) (length (content r))\<rparr>)"
proof (induction m NopCloser r acc rule: read_all.induct)
  case (1 m r acc)
  show ?case
  proof (cases "length (content r) \<le> pos r")
    case True
    then show ?thesis
      by (subst read_all.simps) (simp add: seeker_Read_def max_def)
  next
    case False
    let ?r' = "r\<lparr>pos := pos r + min (Suc m) (length (content r) - pos r)\<rparr>"
    have rd: "body_stream_Read NopCloser r (Suc m) =
        ((take (Suc m) (drop (pos r) (content r)), None), NopCloser, ?r')"
      using False by (simp add: seeker_Read_def)
    have "read_all m NopCloser r acc =
        read_all m NopCloser ?r' (acc @ take (Suc m) (drop (pos r) (content r)))"
      by (subst read_all.simps) (simp add: rd del: body_stream_Read.simps)
    also have "\<dots> = ((acc @ take (Suc m) (drop (pos r) (content r)) @ drop (pos ?r') (content ?r'), None),
        NopCloser, ?r'\<lparr>pos := max (pos ?r') (length (content ?r'))\<rparr>)"
      using "1.hyps" [OF rd [symmetric] refl refl refl] by simp
    also have "take (Suc m) (drop (pos r) (content r)) @ drop (pos ?r') (content ?r') = drop (pos r) (content r)"
    proof -
      have "drop (pos ?r') (content ?r') = drop (min (Suc m) (length (content r) - pos r)) (drop (pos r) (content r))"
        by (simp add: add.commute)
      also have "\<dots> = drop (Suc m) (drop (pos r) (content r))"
        by (cases "Suc m \<le> length (content r) - pos r") (simp_all add: min_def)
      finally show ?thesis by (simp only: append_take_drop_id)
    qed
    also have "?r'\<lparr>pos := max (pos ?r') (length (content ?r'))\<rparr> = r\<lparr>pos := max (pos r) (length (content r))\<rparr>"
      using False by (simp add: max_def min_def)
    finally show ?thesis .
  qed
qed


lemma read_all_NopCloserLimit:
  "read_all m (NopCloserLimit N) r acc =
     ((acc @ take N (drop (pos r) (content r)), None),
      NopCloserLimit (N - length (take N (drop (pos r) (content r)))),
      r\<lparr>pos := pos r + length (take N (drop (pos r) (content r)))\<rparr>)"
proof (induction m "NopCloserLimit N" r acc arbitrary: N rule: read_all.induct)
  case (1 m r acc)
  show ?case
  proof (cases "N = 0 \<or> length (content r) \<le> pos r")
    case True
    then have rd0: "body_stream_Read (NopCloserLimit N) r (Suc m) = (([], Some EOF), NopCloserLimit N, r)"
      by (auto simp: seeker_Read_def)
    have "read_all m (NopCloserLimit N) r acc = ((acc, None), NopCloserLimit N, r)"
      by (subst read_all.simps) (simp add: rd0 del: body_stream_Read.simps)
    moreover have "take N (drop (pos r) (content r)) = []"
      using True by auto
    ultimately show ?thesis
      using True by (auto simp: min_def)
  next
    case False
    define d where "d = drop (pos r) (content r)"
    define k where "k = min (Suc m) N"
    define bs where "bs = take k d"
    define r' where "r' = r\<lparr>pos := pos r + length bs\<rparr>"
    have lend: "length d = length (content r) - pos r" by (simp add: d_def)
    have lenbs: "length bs = min k (length d)" by (simp add: bs_def)
    have kN: "k \<le> N" "0 < k" using False by (auto simp: k_def)
    have rd: "body_stream_Read (NopCloserLimit N) r (Suc m) =
        ((bs, None), NopCloserLimit (N - length bs), r')"
      using False by (simp add: seeker_Read_def bs_def k_def d_def r'_def)
    have step: "read_all m (NopCloserLimit N) r acc =
        read_all m (NopCloserLimit (N - length bs)) r' (acc @ bs)"
      by (subst read_all.simps) (simp add: rd del: body_stream_Read.simps)
    have d': "drop (pos r') (content r') = drop (length bs) d"
      by (simp add: r'_def d_def add.commute)
    have cat: "bs @ take (N - length bs) (drop (length bs) d) = take N d"
    proof -
      have "take N d = take (length bs + (N - length bs)) d"
        using kN lenbs by simp
      also have "\<dots> = take (length bs) d @ take (N - length bs) (drop (length bs) d)"
        by (rule take_add)
      also have "take (length bs) d = bs"
        unfolding bs_def by (cases "k \<le> length d") (simp_all add: min_def)
      finally show ?thesis by simp
    qed
    have lencat: "length bs + length (take (N - length bs) (drop (length bs) d)) = length (take N d)"
      using arg_cong [OF cat, of length] by simp
    have ih: "read_all m (NopCloserLimit (N - length bs)) r' (acc @ bs) =
       (((acc @ bs) @ take (N - length bs) (drop (pos r') (content r')), None),
        NopCloserLimit (N - length bs - length (take (N - length bs) (drop (pos r') (content r')))),
        r'\<lparr>pos := pos r' + length (take (N - length bs) (drop (pos r') (content r')))\<rparr>)"
      by (rule "1.hyps" [OF rd [symmetric] refl refl refl])
    have fin_acc: "(acc @ bs) @ take (N - length bs) (drop (pos r') (content r')) = acc @ take N d"
      using cat by (simp add: d')
    have fin_N: "N - length bs - length (take (N - length bs) (drop (pos r') (content r'))) = N - length (take N d)"
      using lencat unfolding d' by arith
    have fin_r: "r'\<lparr>pos := pos r' + length (take (N - length bs) (drop (pos r') (content r')))\<rparr>
        = r\<lparr>pos := pos r + length (take N d)\<rparr>"
      using lencat unfolding d' by (simp add: r'_def)
    show ?thesis
      by (simp only: step ih fin_acc fin_N fin_r d_def)
  qed
qed


lemma replay_ReadSeeker:
  "fn c = bodyFuncFromReadSeeker \<Longrightarrow>
   replay N m c =
     replicate N (case seekFail (captured c) of
                    None \<Rightarrow> Inr (content (captured c)) | Some e \<Rightarrow> Inl e)"
proof (induction N arbitrary: c)
  case 0
  show ?case by simp
next
  case (Suc N)
  show ?case
  proof (cases "seekFail (captured c)")
    case (Some e)
    then have "Open c = ((NopCloser, Some e), c)"
      using Suc.prems by (simp add: Open_def seeker_SeekStart_def)
    then show ?thesis
      using Suc.IH [OF Suc.prems] Some by simp
  next
    case None
    let ?c' = "c\<lparr>captured := (captured c)\<lparr>pos := 0\<rparr>\<rparr>"
    let ?c'' = "c\<lparr>captured := (captured c)\<lparr>pos := length (content (captured c))\<rparr>\<rparr>"
    have op: "Open c = ((NopCloser, None), ?c')"
      using Suc.prems None by (simp add: Open_def seeker_SeekStart_def)
    have "fn ?c'' = bodyFuncFromReadSeeker" using Suc.prems by simp
    from Suc.IH [OF this] None
    have "replay N m ?c'' = replicate N (Inr (content (captured c)))" by simp
    then show ?thesis
      using None by (simp add: op read_all_NopCloser)
  qed
qed

lemma replay_File:
  "fn c = bodyFuncFromFile n \<Longrightarrow>
   replay N m c =
     replicate N (case seekFail (captured c) of
                    None \<Rightarrow> Inr (take n (content (captured c))) | Some e \<Rightarrow> Inl e)"
proof (induction N arbitrary: c)
  case 0
  show ?case by simp
next
  case (Suc N)
  show ?case
  proof (cases "seekFail (captured c)")
    case (Some e)
    then have "Open c = ((NopCloserLimit n, Some e), c)"
      using Suc.prems by (simp add: Open_def seeker_SeekStart_def)
    then show ?thesis
      using Suc.IH [OF Suc.prems] Some by simp
  next
    case None
    let ?c' = "c\<lparr>captured := (captured c)\<lparr>pos := 0\<rparr>\<rparr>"
    let ?c'' = "c\<lparr>captured := (captured c)\<lparr>pos := length (take n (content (captured c)))\<rparr>\<rparr>"
    have op: "Open c = ((NopCloserLimit n, None), ?c')"
      using Suc.prems None by (simp add: Open_def seeker_SeekStart_def)
    have "fn ?c'' = bodyFuncFromFile n" using Suc.prems by simp
    from Suc.IH [OF this] None
    have "replay N m ?c'' = replicate N (Inr (take n (content (captured c))))" by simp
    then show ?thesis
      using None by (simp add: op read_all_NopCloserLimit)
  qed
qed

text \<open>
  C8. For a body built by \<open>GetBody\<close> from bytes, from text, from form values, from a
  seekable file or from a seekable reader, \<open>N\<close> rounds of opening the body and reading
  the stream to its end give \<open>N\<close> times the same result: the bytes, the text, the
  encoded form, the file's content up to the size found by \<open>Stat\<close>, the reader's
  whole content (wherever its offset was before), or every time the error of a
  failing \<open>Seek\<close>.
\<close>

theorem C8_body_replay_identical:
  "replay N m (the (fst (GetBody enc (VBytes b)))) = replicate N (Inr b)
   \<and> replay N m (the (fst (GetBody enc (VString s)))) = replicate N (Inr s)
   \<and> replay N m (the (fst (GetBody enc (VValues vs)))) = replicate N (Inr (enc vs))
   \<and> replay N m (the (fst (GetBody enc (VSeekableFile r (Inr n))))) =
         replicate N (case seekFail r of None \<Rightarrow> Inr (take n (content r)) | Some e \<Rightarrow> Inl e)
   \<and> replay N m (the (fst (GetBody enc (VReadSeeker r ms)))) =
         replicate N (case seekFail r of None \<Rightarrow> Inr (content r) | Some e \<Rightarrow> Inl e)"
  by (simp add: bodyFuncFromReadSeekerSize_def replay_ReadSeeker replay_File split: option.split)

section \<open>Properties of the restricted dialer\<close>

lemma xor_eq_0_word: "((x::'a::len word) XOR y = 0) = (x = y)"
  by (metis bit.xor_self xor.left_neutral xor.assoc xor.commute)

lemma anyContains_iff: "anyContains ps a = (\<exists>p\<in>set ps. Prefix_Contains p a)"
  by (induction ps) auto

lemma mask6_0: "mask6 0 = 0"
proof -
  have "(mask 128 :: 128 word) = - 1"
    using mask_full [where 'a = 128] by simp
  then show ?thesis by (simp add: mask6_def)
qed

lemma only_1111_v4: "IsAllowed dialer_only_1111 (Addr4 w) = (w = 0x01010101)"
  by (simp add: IsAllowed_def dialer_only_1111_def Prefix_Contains_def Prefix_Bits_def xor_eq_0_word)

lemma only_1111_v6: "IsAllowed dialer_only_1111 (Addr6 w z) = (z \<noteq> [])"
  by (simp add: IsAllowed_def dialer_only_1111_def Prefix_Contains_def Prefix_Bits_def mask6_0)

lemma only_1111_zero: "IsAllowed dialer_only_1111 AddrZero"
  by (simp add: IsAllowed_def dialer_only_1111_def Prefix_Contains_def Prefix_Bits_def)

lemma private_only: "IsAllowed dialer_private_only a = (\<not> Addr_IsPrivate a)"
  by (simp add: IsAllowed_def dialer_private_only_def)

lemma private_examples:
  "Addr_IsPrivate (Addr4 0x0A000001)" "Addr_IsPrivate (Addr4 0xAC100001)"
  "Addr_IsPrivate (Addr4 0xC0A80001)" "Addr_IsPrivate (Addr6 0xfc000000000000000000000000000001 [])"
  "\<not> Addr_IsPrivate (Addr4 0x7F000001)" "\<not> Addr_IsPrivate (Addr4 0x01010101)"
  "\<not> Addr_IsPrivate (Addr6 0x26064700470000000000000000001111 [])"
  by (simp_all add: Addr_IsPrivate_def v4_def v6_def)

text \<open>
  The order of \<open>IsAllowed\<close>: the allowed prefixes, then the blocked prefixes, then
  the toggles, then allow.
\<close>

lemma IsAllowed_order: "IsAllowed r a =
      (anyContains (AllowedPrefixes r) a \<or>
       \<not> anyContains (BlockedPrefixes r) a \<and>
       \<not> (IsPrivate r \<and> Addr_IsPrivate a \<or> IsLoopback r \<and> Addr_IsLoopback a
          \<or> IsLinkLocalUnicast r \<and> Addr_IsLinkLocalUnicast a
          \<or> IsLinkLocalMulticast r \<and> Addr_IsLinkLocalMulticast a
          \<or> IsInterfaceLocalMulticast r \<and> Addr_IsInterfaceLocalMulticast a))"
    by (simp add: IsAllowed_def)

lemma IsAllowed_allowed: "(\<exists>p\<in>set (AllowedPrefixes r). Prefix_Contains p a) \<Longrightarrow> IsAllowed r a"
  unfolding IsAllowed_order anyContains_iff by blast

lemma IsAllowed_blocked: "\<not> (\<exists>p\<in>set (AllowedPrefixes r). Prefix_Contains p a)
        \<and> (\<exists>p\<in>set (BlockedPrefixes r). Prefix_Contains p a) \<Longrightarrow> \<not> IsAllowed r a"
  unfolding IsAllowed_order anyContains_iff by blast

lemma IsAllowed_toggles: "\<not> (\<exists>p\<in>set (AllowedPrefixes r). Prefix_Contains p a)
        \<and> \<not> (\<exists>p\<in>set (BlockedPrefixes r). Prefix_Contains p a) \<Longrightarrow>
        IsAllowed r a =
          (\<not> (IsPrivate r \<and> Addr_IsPrivate a \<or> IsLoopback r \<and> Addr_IsLoopback a
              \<or> IsLinkLocalUnicast r \<and> Addr_IsLinkLocalUnicast a
              \<or> IsLinkLocalMulticast r \<and> Addr_IsLinkLocalMulticast a
              \<or> IsInterfaceLocalMulticast r \<and> Addr_IsInterfaceLocalMulticast a))"
  unfolding IsAllowed_order anyContains_iff by blast

lemma only_1111_examples: "\<not> IsAllowed dialer_only_1111 (Addr4 0x7F000001)" "\<not> IsAllowed dialer_only_1111 (Addr4 0x0A000001)"
  by (simp_all add: only_1111_v4)

lemma private_only_examples:
  "\<not> IsAllowed dialer_private_only (Addr4 0x0A000001)"
  "\<not> IsAllowed dialer_private_only (Addr4 0xAC100001)"
  "\<not> IsAllowed dialer_private_only (Addr4 0xC0A80001)"
  "\<not> IsAllowed dialer_private_only (Addr6 0xfc000000000000000000000000000001 [])"
  "IsAllowed dialer_private_only (Addr4 0x7F000001)"
  "IsAllowed dialer_private_only (Addr4 0x01010101)"
  "IsAllowed dialer_private_only (Addr6 0x26064700470000000000000000001111 [])"
  by (simp_all only: private_only private_examples simp_thms)

text \<open>
  C5. \<open>IsAllowed\<close> decides in the order the claim gives (the lemmas above), but a
  blocked prefix does not deny every address it covers. \<open>Prefix.Contains\<close> is false
  for every IPv6 address that carries a zone, so such an address is in no allowed and
  in no blocked prefix, whatever the lists hold, and only the toggles, which ignore the
  zone, decide about it. With \<open>blocked = [0.0.0.0/0, ::/0]\<close> and
  \<open>allowed = [1.1.1.1/32]\<close> the dialer denies \<open>fe80::1\<close> and allows
  \<open>fe80::1%eth0\<close>, although \<open>BlockedPrefixes\<close> is documented as "any prefix present
  here will be blocked" and \<open>::/0\<close> is every IPv6 address; \<open>DialContext\<close> returns the
  connection to \<open>[fe80::1%eth0]:80\<close> with no error. The default dialer, which has the
  link-local toggle set, denies the same address.
\<close>

theorem C5_zoned_address_passes_blocked_prefixes:
  "(z \<noteq> [] \<longrightarrow> \<not> anyContains ps (Addr6 w z))
   \<and> (z \<noteq> [] \<longrightarrow>
        IsAllowed r (Addr6 w z) =
          (\<not> (IsPrivate r \<and> Addr_IsPrivate (Addr6 w z)
              \<or> IsLoopback r \<and> Addr_IsLoopback (Addr6 w z)
              \<or> IsLinkLocalUnicast r \<and> Addr_IsLinkLocalUnicast (Addr6 w z)
              \<or> IsLinkLocalMulticast r \<and> Addr_IsLinkLocalMulticast (Addr6 w z)
              \<or> IsInterfaceLocalMulticast r \<and> Addr_IsInterfaceLocalMulticast (Addr6 w z))))
   \<and> IsAllowed dialer_only_1111 (Addr6 0xfe800000000000000000000000000001 ''eth0'')
   \<and> \<not> IsAllowed dialer_only_1111 (Addr6 0xfe800000000000000000000000000001 [])
   \<and> \<not> IsAllowed NewRestrictedDialer (Addr6 0xfe800000000000000000000000000001 ''eth0'')
   \<and> DialContext dialer_only_1111
        \<lparr>dial = (\<lambda>k n a. Inr \<lparr>connId = k, RemoteAddr = a\<rparr>),
          ParseAddrPort = (\<lambda>s. if s = ''[fe80::1%eth0]:80''
                                then Inr (Addr6 0xfe800000000000000000000000000001 ''eth0'', 80)
                                else Inl (Plain ''bad''))\<rparr>
        \<lparr>dials = 0, closedConns = []\<rparr> ''tcp'' ''[fe80::1%eth0]:80''
       = ((Some \<lparr>connId = 0, RemoteAddr = ''[fe80::1%eth0]:80''\<rparr>, None),
          \<lparr>dials = 1, closedConns = []\<rparr>)"
proof -
  have nc: "\<not> Prefix_Contains p (Addr6 w z)" if "z \<noteq> []" for p
    using that by (simp add: Prefix_Contains_def)
  have c1: "\<not> anyContains ps (Addr6 w z)" if "z \<noteq> []" for ps
    using nc [OF that] by (simp add: anyContains_iff)
  have c2: "IsAllowed r (Addr6 w z) =
          (\<not> (IsPrivate r \<and> Addr_IsPrivate (Addr6 w z)
              \<or> IsLoopback r \<and> Addr_IsLoopback (Addr6 w z)
              \<or> IsLinkLocalUnicast r \<and> Addr_IsLinkLocalUnicast (Addr6 w z)
              \<or> IsLinkLocalMulticast r \<and> Addr_IsLinkLocalMulticast (Addr6 w z)
              \<or> IsInterfaceLocalMulticast r \<and> Addr_IsInterfaceLocalMulticast (Addr6 w z)))"
    if "z \<noteq> []"
    unfolding IsAllowed_order using c1 [OF that] by simp
  have c3: "IsAllowed dialer_only_1111 (Addr6 0xfe800000000000000000000000000001 ''eth0'')"
    by (simp add: only_1111_v6)
  have c4: "\<not> IsAllowed dialer_only_1111 (Addr6 0xfe800000000000000000000000000001 [])"
    by (simp add: only_1111_v6)
  have c5: "\<not> IsAllowed NewRestrictedDialer (Addr6 0xfe800000000000000000000000000001 ''eth0'')"
    by (simp add: IsAllowed_def NewRestrictedDialer_def Addr_IsPrivate_def Addr_IsLoopback_def
        Addr_IsLinkLocalUnicast_def v6_def v6u16_def)
  have c6: "DialContext dialer_only_1111
        \<lparr>dial = (\<lambda>k n a. Inr \<lparr>connId = k, RemoteAddr = a\<rparr>),
          ParseAddrPort = (\<lambda>s. if s = ''[fe80::1%eth0]:80''
                                then Inr (Addr6 0xfe800000000000000000000000000001 ''eth0'', 80)
                                else Inl (Plain ''bad''))\<rparr>
        \<lparr>dials = 0, closedConns = []\<rparr> ''tcp'' ''[fe80::1%eth0]:80''
       = ((Some \<lparr>connId = 0, RemoteAddr = ''[fe80::1%eth0]:80''\<rparr>, None),
          \<lparr>dials = 1, closedConns = []\<rparr>)"
    by (simp add: DialContext_def Let_def only_1111_v6)
  from c1 c2 c3 c4 c5 c6 show ?thesis by blast
qed

theorem C5_zoned_address_passes_blocked_prefixes_witness:
  "''eth0'' \<noteq> []
   \<and> \<not> anyContains (BlockedPrefixes dialer_only_1111) (Addr6 0xfe800000000000000000000000000001 ''eth0'')
   \<and> \<not> anyContains [\<lparr>ip = Addr6 0xfe800000000000000000000000000001 [], bitsPlusOne = 129\<rparr>]
          (Addr6 0xfe800000000000000000000000000001 ''eth0'')
   \<and> anyContains [\<lparr>ip = Addr6 0xfe800000000000000000000000000001 [], bitsPlusOne = 129\<rparr>]
          (Addr6 0xfe800000000000000000000000000001 [])
   \<and> IsAllowed dialer_only_1111 (Addr6 0xfe800000000000000000000000000001 ''eth0'')"
proof -
  note t = C5_zoned_address_passes_blocked_prefixes
      [of "''eth0''" "BlockedPrefixes dialer_only_1111" "0xfe800000000000000000000000000001"
          dialer_only_1111]
  note t' = C5_zoned_address_passes_blocked_prefixes
      [of "''eth0''" "[\<lparr>ip = Addr6 0xfe800000000000000000000000000001 [], bitsPlusOne = 129\<rparr>]"
          "0xfe800000000000000000000000000001" dialer_only_1111]
  have z: "''eth0'' \<noteq> []" by simp
  have a: "\<not> anyContains (BlockedPrefixes dialer_only_1111)
              (Addr6 0xfe800000000000000000000000000001 ''eth0'')"
    using t [THEN conjunct1] z by (rule mp)
  have a': "\<not> anyContains [\<lparr>ip = Addr6 0xfe800000000000000000000000000001 [], bitsPlusOne = 129\<rparr>]
          (Addr6 0xfe800000000000000000000000000001 ''eth0'')"
    using t' [THEN conjunct1] z by (rule mp)
  have a'': "anyContains [\<lparr>ip = Addr6 0xfe800000000000000000000000000001 [], bitsPlusOne = 129\<rparr>]
          (Addr6 0xfe800000000000000000000000000001 [])"
    by (simp add: Prefix_Contains_def)
  have b: "IsAllowed dialer_only_1111 (Addr6 0xfe800000000000000000000000000001 ''eth0'')"
    using t [THEN conjunct2, THEN conjunct1, THEN mp, OF z] by (simp add: dialer_only_1111_def)
  from z a a' a'' b show ?thesis by simp
qed

text \<open>
  C6. When the underlying dial succeeds, \<open>DialContext\<close> returns the connection it got
  from that one dial in every case: with the wrapped parse error when the remote
  address does not parse, with \<open>ErrInternalResolution\<close> when the policy disallows the
  address. It dials once and closes nothing.
\<close>

theorem C6_DialContext_returns_conn:
  "dial env (dials st) network addr = Inr c \<Longrightarrow>
   (\<forall>perr. ParseAddrPort env (RemoteAddr c) = Inl perr \<longrightarrow>
      DialContext r env st network addr =
        ((Some c, Some (Wrapped ''nxhttp: failed to parse remote address'' perr)),
         st\<lparr>dials := dials st + 1\<rparr>))
   \<and> (\<forall>a port. ParseAddrPort env (RemoteAddr c) = Inr (a, port) \<longrightarrow> \<not> IsAllowed r a \<longrightarrow>
      DialContext r env st network addr =
        ((Some c, Some ErrInternalResolution), st\<lparr>dials := dials st + 1\<rparr>))"
  by (simp add: DialContext_def Let_def)

theorem C6_DialContext_returns_conn_witness:
  "dial \<lparr>dial = (\<lambda>k n a. Inr \<lparr>connId = k, RemoteAddr = a\<rparr>),
         ParseAddrPort = (\<lambda>s. if s = ''10.0.0.1:80'' then Inr (Addr4 0x0A000001, 80) else Inl (Plain ''bad''))\<rparr>
     (dials \<lparr>dials = 0, closedConns = []\<rparr>) ''tcp'' ''10.0.0.1:80''
     = Inr \<lparr>connId = 0, RemoteAddr = ''10.0.0.1:80''\<rparr>
   \<and> \<not> IsAllowed NewRestrictedDialer (Addr4 0x0A000001)
   \<and> DialContext NewRestrictedDialer
       \<lparr>dial = (\<lambda>k n a. Inr \<lparr>connId = k, RemoteAddr = a\<rparr>),
         ParseAddrPort = (\<lambda>s. if s = ''10.0.0.1:80'' then Inr (Addr4 0x0A000001, 80) else Inl (Plain ''bad''))\<rparr>
       \<lparr>dials = 0, closedConns = []\<rparr> ''tcp'' ''10.0.0.1:80''
     = ((Some \<lparr>connId = 0, RemoteAddr = ''10.0.0.1:80''\<rparr>, Some ErrInternalResolution),
        \<lparr>dials = 1, closedConns = []\<rparr>)
   \<and> DialContext NewRestrictedDialer
       \<lparr>dial = (\<lambda>k n a. Inr \<lparr>connId = k, RemoteAddr = a\<rparr>),
         ParseAddrPort = (\<lambda>s. if s = ''10.0.0.1:80'' then Inr (Addr4 0x0A000001, 80) else Inl (Plain ''bad''))\<rparr>
       \<lparr>dials = 0, closedConns = []\<rparr> ''unix'' ''/run/x.sock''
     = ((Some \<lparr>connId = 0, RemoteAddr = ''/run/x.sock''\<rparr>,
         Some (Wrapped ''nxhttp: failed to parse remote address'' (Plain ''bad''))),
        \<lparr>dials = 1, closedConns = []\<rparr>)"
proof -
  let ?env = "\<lparr>dial = (\<lambda>k n a. Inr \<lparr>connId = k, RemoteAddr = a\<rparr>),
         ParseAddrPort = (\<lambda>s. if s = ''10.0.0.1:80'' then Inr (Addr4 0x0A000001, 80) else Inl (Plain ''bad''))\<rparr>"
  let ?st = "\<lparr>dials = 0, closedConns = []\<rparr>"
  have d1: "dial ?env (dials ?st) ''tcp'' ''10.0.0.1:80'' = Inr \<lparr>connId = 0, RemoteAddr = ''10.0.0.1:80''\<rparr>"
    by simp
  have d2: "dial ?env (dials ?st) ''unix'' ''/run/x.sock'' = Inr \<lparr>connId = 0, RemoteAddr = ''/run/x.sock''\<rparr>"
    by simp
  have na: "\<not> IsAllowed NewRestrictedDialer (Addr4 0x0A000001)"
    by (simp add: IsAllowed_def NewRestrictedDialer_def Addr_IsPrivate_def v4_def)
  show ?thesis
    using d1 na C6_DialContext_returns_conn [OF d1, of NewRestrictedDialer]
      C6_DialContext_returns_conn [OF d2, of NewRestrictedDialer]
    by simp
qed

section \<open>Properties of the Retry-After parser\<close>









section \<open>Properties of the retrying executor\<close>

lemmas Do_loop_numeral = Do_loop.simps(2) [of "pred_numeral n" for n, folded numeral_eq_Suc]

lemmas Do_loop_1 = Do_loop.simps(2) [of 0, folded One_nat_def]

lemmas Do_eval = Do_def Do_loop_numeral Do_loop_1 example_retry_def retrier_Next_def
  default_options_def server_def retry_after_server_def failing_body_def respond_def
  doRequest_def status_switch_def retryAfter_def httpheader_Get_def ParseRetryAfter_def
  ParseInt_def is_digit_def digits_val_def wrap64_def Second_def exponential_def no_dates_def
  isTimeout_def Let_def

text \<open>
  C1. A response whose status is neither 2xx nor one of 429, 500, 502, 503 and 504 does
  not stop the loop: no branch of the \<open>switch\<close> on the status code leaves the \<open>for\<close>
  loop. With the default options (three attempts) a server that always answers 404 is
  called three times, with the backoff's waits in between, before the last 404 is
  returned; and when the server answers 404 and then 200, the 404 is dropped, the
  request is sent again and the 200 is returned.
\<close>

theorem C1_other_status_is_retried:
  "\<not> status_switch code
   \<and> (\<exists>r st. Do 10 example_retry default_options (server [] (respond 404 Map.empty))
                 = Some (Return (Some r) None, st)
              \<and> StatusCode r = 404 \<and> netCalls st = 3 \<and> waits st = [0, 1 * Second, 2 * Second])
   \<and> (\<exists>r st. Do 10 example_retry default_options
                   (server [respond 404 Map.empty] (respond 200 Map.empty))
                 = Some (Return (Some r) None, st)
              \<and> StatusCode r = 200 \<and> netCalls st = 2 \<and> map StatusCode (responses st) = [404, 200])"
proof -
  have a: "\<not> status_switch code"
    by (simp add: status_switch_def)
  have b: "\<exists>r st. Do 10 example_retry default_options (server [] (respond 404 Map.empty))
                 = Some (Return (Some r) None, st)
              \<and> StatusCode r = 404 \<and> netCalls st = 3 \<and> waits st = [0, 1 * Second, 2 * Second]"
    by (simp add: Do_eval)
  have c: "\<exists>r st. Do 10 example_retry default_options
                   (server [respond 404 Map.empty] (respond 200 Map.empty))
                 = Some (Return (Some r) None, st)
              \<and> StatusCode r = 200 \<and> netCalls st = 2 \<and> map StatusCode (responses st) = [404, 200]"
    by (simp add: Do_eval)
  from a b c show ?thesis by blast
qed

text \<open>
  C2. \<open>Do\<close> closes no response. When the server answers 503 and then 200, the second
  attempt is made and the 200 is returned while the body of the 503 has not been read or
  closed: no call was ever made on its stream, and the response is out of the caller's
  reach.
\<close>

theorem C2_discarded_response_not_closed:
  "\<exists>r st. Do 10 example_retry default_options
             (server [respond 503 Map.empty] (respond 200 Map.empty))
           = Some (Return (Some r) None, st)
        \<and> StatusCode r = 200 \<and> netCalls st = 2
        \<and> map StatusCode (responses st) = [503, 200]
        \<and> map (\<lambda>r. case Body r of None \<Rightarrow> [] | Some b \<Rightarrow> calls (ReadCloser b)) (responses st)
            = [[], []]"
  by (simp add: Do_eval)

lemma received_Suc:
  "received c w (Suc n) =
     received c w n @
       (case clientDo w n of
          Inr (Some res) \<Rightarrow>
            (let resp = \<lparr>StatusCode = resStatusCode res, Header = resHeader res,
                         Body = (case resBody res of
                                   None \<Rightarrow> None
                                 | Some b \<Rightarrow> Some \<lparr>ReadCloser = b, eof = False\<rparr>)\<rparr>
             in if 200 \<le> StatusCode resp \<and> StatusCode resp \<le> 299 then [resp]
                else (case onErrorResponse c of
                        None \<Rightarrow> [resp]
                      | Some hook \<Rightarrow> [snd (hook resp)]))
        | _ \<Rightarrow> [])"
  by (simp add: received_def)

lemma doRequest_received:
  assumes "doRequest w st = ((r, e), st1)"
  shows "responses st1 = responses st
     \<and> (case r of
          None \<Rightarrow> received c w (netCalls st1) = received c w (netCalls st)
        | Some resp \<Rightarrow>
            e = None \<and>
            received c w (netCalls st1) =
              received c w (netCalls st) @
                (if 200 \<le> StatusCode resp \<and> StatusCode resp \<le> 299 then [resp]
                 else (case onErrorResponse c of
                         None \<Rightarrow> [resp]
                       | Some hook \<Rightarrow> [snd (hook resp)])))"
  using assms
  by (auto simp: doRequest_def received_Suc Let_def
      split: option.splits sum.splits prod.splits if_splits)

lemma Do_loop_end:
  "Next L rty = None \<Longrightarrow> Do_loop (Suc fuel) L c w rty r doErr st = Some (Return r doErr, st)"
  by simp

lemma Do_loop_error:
  "Next L rty = Some (d0, rty1) \<Longrightarrow>
   doRequest w (st\<lparr>waits := waits st @ [d0]\<rparr>) = ((r1, Some e), st1) \<Longrightarrow>
   Do_loop (Suc fuel) L c w rty r doErr st =
     (case onError c e of
        None \<Rightarrow> Do_loop fuel L c w rty1 r1 None st1
      | Some e' \<Rightarrow>
          if isTimeout e' then Do_loop fuel L c w rty1 r1 (Some e') st1
          else Some (Return r1 (Some e'), st1))"
  by (cases r1) auto

lemma Do_loop_nil:
  "Next L rty = Some (d0, rty1) \<Longrightarrow>
   doRequest w (st\<lparr>waits := waits st @ [d0]\<rparr>) = ((None, None), st1) \<Longrightarrow>
   Do_loop (Suc fuel) L c w rty r doErr st = Some (Panic, st1)"
  by simp

lemma Do_loop_2xx:
  "Next L rty = Some (d0, rty1) \<Longrightarrow>
   doRequest w (st\<lparr>waits := waits st @ [d0]\<rparr>) = ((Some resp, None), st1) \<Longrightarrow>
   200 \<le> StatusCode resp \<and> StatusCode resp \<le> 299 \<Longrightarrow>
   Do_loop (Suc fuel) L c w rty r doErr st =
     Some (Return (Some resp) None, st1\<lparr>responses := responses st1 @ [resp]\<rparr>)"
  by simp

lemma Do_loop_hook_error:
  "Next L rty = Some (d0, rty1) \<Longrightarrow>
   doRequest w (st\<lparr>waits := waits st @ [d0]\<rparr>) = ((Some resp, None), st1) \<Longrightarrow>
   \<not> (200 \<le> StatusCode resp \<and> StatusCode resp \<le> 299) \<Longrightarrow>
   (case onErrorResponse c of None \<Rightarrow> (None, resp) | Some hook \<Rightarrow> hook resp) = (Some e, resp') \<Longrightarrow>
   Do_loop (Suc fuel) L c w rty r doErr st =
     Some (Return (Some resp') (Some e), st1\<lparr>responses := responses st1 @ [resp']\<rparr>)"
  by simp

lemma Do_loop_retry:
  "Next L rty = Some (d0, rty1) \<Longrightarrow>
   doRequest w (st\<lparr>waits := waits st @ [d0]\<rparr>) = ((Some resp, None), st1) \<Longrightarrow>
   \<not> (200 \<le> StatusCode resp \<and> StatusCode resp \<le> 299) \<Longrightarrow>
   (case onErrorResponse c of None \<Rightarrow> (None, resp) | Some hook \<Rightarrow> hook resp) = (None, resp') \<Longrightarrow>
   Do_loop (Suc fuel) L c w rty r doErr st =
     Do_loop fuel L c w
       (case retryAfter (clock w (netCalls st1)) resp' of
          Inl err \<Rightarrow> rty1
        | Inr d \<Rightarrow>
            if minRetryAfter c < d
            then Override L (if 0 < maxRetryAfter c \<and> maxRetryAfter c < d
                             then maxRetryAfter c else d) rty1
            else rty1)
       (Some resp') None (st1\<lparr>responses := responses st1 @ [resp']\<rparr>)"
  by (auto simp: Let_def status_switch_def split: sum.split)

lemma Do_loop_received:
  "Do_loop fuel L c w rty r doErr st = Some (out, st') \<Longrightarrow>
   responses st = received c w (netCalls st) \<Longrightarrow>
   responses st' = received c w (netCalls st')"
proof (induction fuel arbitrary: rty r doErr st)
  case 0
  then show ?case by simp
next
  case (Suc fuel)
  show ?case
  proof (cases "Next L rty")
    case None
    with Suc.prems show ?thesis by simp
  next
    case (Some p)
    obtain d0 rty1 where p: "p = (d0, rty1)" by (cases p)
    have nx: "Next L rty = Some (d0, rty1)" using Some p by simp
    obtain r1 e1 st1 where rq: "doRequest w (st\<lparr>waits := waits st @ [d0]\<rparr>) = ((r1, e1), st1)"
      by (metis prod.exhaust)
    note rc = doRequest_received [OF rq, of c]
    have st1: "responses st1 = received c w (netCalls st)"
      using rc Suc.prems(2) by simp
    show ?thesis
    proof (cases e1)
      case (Some e)
      have nr: "received c w (netCalls st1) = received c w (netCalls st)"
        using rc Some by (cases r1) simp_all
      have inv: "responses st1 = received c w (netCalls st1)"
        using st1 nr by simp
      note step = Do_loop_error [OF nx rq [unfolded Some], of fuel c r doErr]
      show ?thesis
      proof (cases "onError c e")
        case None
        have "Do_loop fuel L c w rty1 r1 None st1 = Some (out, st')"
          using Suc.prems(1) step None by simp
        from Suc.IH [OF this inv] show ?thesis .
      next
        case (Some e')
        note oe = this
        show ?thesis
        proof (cases "isTimeout e'")
          case True
          have "Do_loop fuel L c w rty1 r1 (Some e') st1 = Some (out, st')"
            using Suc.prems(1) step oe True by simp
          from Suc.IH [OF this inv] show ?thesis .
        next
          case False
          have "st' = st1"
            using Suc.prems(1) step oe False by simp
          with inv show ?thesis by simp
        qed
      qed
    next
      case None
      note e1 = this
      show ?thesis
      proof (cases r1)
        case None
        have "st' = st1"
          using Suc.prems(1) Do_loop_nil [OF nx rq [unfolded e1 None], of fuel c r doErr] by simp
        moreover have "received c w (netCalls st1) = received c w (netCalls st)"
          using rc None by simp
        ultimately show ?thesis using st1 by simp
      next
        case (Some resp)
        note rq' = rq [unfolded e1 Some]
        have rcv: "received c w (netCalls st1) =
              received c w (netCalls st) @
                (if 200 \<le> StatusCode resp \<and> StatusCode resp \<le> 299 then [resp]
                 else (case onErrorResponse c of
                         None \<Rightarrow> [resp]
                       | Some hook \<Rightarrow> [snd (hook resp)]))"
          using rc Some by simp
        show ?thesis
        proof (cases "200 \<le> StatusCode resp \<and> StatusCode resp \<le> 299")
          case True
          have "st' = st1\<lparr>responses := responses st1 @ [resp]\<rparr>"
            using Suc.prems(1) Do_loop_2xx [OF nx rq' True, of fuel c r doErr] by simp
          then show ?thesis using st1 rcv True by simp
        next
          case False
          obtain he resp' where hk:
            "(case onErrorResponse c of None \<Rightarrow> (None, resp) | Some hook \<Rightarrow> hook resp) = (he, resp')"
            by (metis prod.exhaust)
          have resp': "(case onErrorResponse c of None \<Rightarrow> [resp] | Some hook \<Rightarrow> [snd (hook resp)])
              = [resp']"
            using hk by (cases "onErrorResponse c") auto
          let ?st2 = "st1\<lparr>responses := responses st1 @ [resp']\<rparr>"
          have inv: "responses ?st2 = received c w (netCalls ?st2)"
            using st1 rcv False resp' by simp
          show ?thesis
          proof (cases he)
            case (Some e)
            have "st' = ?st2"
              using Suc.prems(1) Do_loop_hook_error [OF nx rq' False hk [unfolded Some], of fuel r doErr]
              by simp
            with inv show ?thesis by simp
          next
            case None
            from Suc.prems(1) Do_loop_retry [OF nx rq' False hk [unfolded None], of fuel r doErr]
            obtain rty2 where "Do_loop fuel L c w rty2 (Some resp') None ?st2 = Some (out, st')"
              by simp
            from Suc.IH [OF this inv] show ?thesis .
          qed
        qed
      qed
    qed
  qed
qed

text \<open>
  C2. The loop of \<open>Do\<close> starts a further attempt while it holds an unclosed discarded
  response: \<open>Do\<close> itself never reads, drains or closes a response body. Whenever a
  call of \<open>Do\<close> returns, every response it received, the discarded ones and the
  returned one alike, is as \<open>doRequest\<close> wrapped it, the stream as the transport
  delivered it and \<open>eof\<close> unset, but for what the caller's \<open>onErrorResponse\<close> hook did
  to a response with a status outside 2xx. With no hook every discarded response is
  dropped unread and unclosed.
\<close>

theorem C2_Do_closes_no_response:
  "Do fuel L c w = Some (out, st) \<Longrightarrow> responses st = received c w (netCalls st)"
proof -
  assume d: "Do fuel L c w = Some (out, st)"
  show ?thesis
  proof (cases "ctxErr w")
    case (Some err)
    with d show ?thesis by (auto simp: Do_def received_def)
  next
    case None
    have "Do_loop fuel L c w (New L (maxAttempts c) (backoff c)) None None
            \<lparr>bodyOpens = 0, netCalls = 0, waits = [], responses = []\<rparr> = Some (out, st)"
      using d None by (simp add: Do_def)
    from Do_loop_received [OF this] show ?thesis by (simp add: received_def)
  qed
qed

theorem C2_Do_closes_no_response_witness:
  "Do 10 example_retry default_options (server [respond 503 Map.empty] (respond 200 Map.empty))
     = Some (Return (Some \<lparr>StatusCode = 200, Header = Map.empty,
                            Body = Some \<lparr>ReadCloser = \<lparr>script = [(''body'', None)], closeErr = None,
                                                        calls = []\<rparr>, eof = False\<rparr>\<rparr>) None,
             \<lparr>bodyOpens = 0, netCalls = 2, waits = [0, 1000000000],
              responses =
                [\<lparr>StatusCode = 503, Header = Map.empty,
                  Body = Some \<lparr>ReadCloser = \<lparr>script = [(''body'', None)], closeErr = None,
                                              calls = []\<rparr>, eof = False\<rparr>\<rparr>,
                 \<lparr>StatusCode = 200, Header = Map.empty,
                  Body = Some \<lparr>ReadCloser = \<lparr>script = [(''body'', None)], closeErr = None,
                                              calls = []\<rparr>, eof = False\<rparr>\<rparr>]\<rparr>)
   \<and> received default_options (server [respond 503 Map.empty] (respond 200 Map.empty)) 2
     = [\<lparr>StatusCode = 503, Header = Map.empty,
         Body = Some \<lparr>ReadCloser = \<lparr>script = [(''body'', None)], closeErr = None,
                                     calls = []\<rparr>, eof = False\<rparr>\<rparr>,
        \<lparr>StatusCode = 200, Header = Map.empty,
         Body = Some \<lparr>ReadCloser = \<lparr>script = [(''body'', None)], closeErr = None,
                                     calls = []\<rparr>, eof = False\<rparr>\<rparr>]"
proof -
  let ?w = "server [respond 503 Map.empty] (respond 200 Map.empty)"
  let ?r503 = "\<lparr>StatusCode = 503, Header = Map.empty,
                  Body = Some \<lparr>ReadCloser = \<lparr>script = [(''body'', None)], closeErr = None,
                                              calls = []\<rparr>, eof = False\<rparr>\<rparr>"
  let ?r200 = "\<lparr>StatusCode = 200, Header = Map.empty,
                  Body = Some \<lparr>ReadCloser = \<lparr>script = [(''body'', None)], closeErr = None,
                                              calls = []\<rparr>, eof = False\<rparr>\<rparr>"
  let ?st = "\<lparr>bodyOpens = 0, netCalls = 2, waits = [0, 1000000000], responses = [?r503, ?r200]\<rparr>"
  have d: "Do 10 example_retry default_options ?w = Some (Return (Some ?r200) None, ?st)"
    by (simp add: Do_eval)
  have "responses ?st = received default_options ?w (netCalls ?st)"
    using d by (rule C2_Do_closes_no_response)
  then have "received default_options ?w 2 = [?r503, ?r200]"
    by simp
  with d show ?thesis by simp
qed

text \<open>
  C3, as stated, fails: the value of \<open>Retry-After\<close> is lowered to the configured
  maximum only when that maximum is positive. With \<open>MaxRetryAfter(0)\<close> and the default
  minimum of 3 s, a 429 with \<open>Retry-After: 100\<close> makes the retrier wait 100 s before
  the next attempt, not the 0 s that is 100 s clamped to the maximum.
\<close>

theorem C3_zero_maximum_does_not_clamp:
  "\<exists>r st. Do 10 example_retry (default_options\<lparr>maxRetryAfter := 0\<rparr>) (retry_after_server ''100'')
            = Some (Return (Some r) None, st)
        \<and> StatusCode r = 200
        \<and> waits st = [0, 100 * Second]
        \<and> minRetryAfter (default_options\<lparr>maxRetryAfter := 0\<rparr>) < 100 * Second
        \<and> min (100 * Second) (maxRetryAfter (default_options\<lparr>maxRetryAfter := 0\<rparr>)) = 0"
  by (simp add: Do_eval)

lemma Do_retry_after_server:
  assumes "maxAttempts c \<noteq> 1" and "onErrorResponse c = None"
  shows "\<exists>r st. Do (Suc (Suc fuel)) example_retry c (retry_after_server v)
              = Some (Return (Some r) None, st)
          \<and> StatusCode r = 200 \<and> netCalls st = 2
          \<and> waits st =
              [0, (case ParseRetryAfter no_dates v of
                     Inl err \<Rightarrow> backoff c 1
                   | Inr d \<Rightarrow>
                       if d \<le> minRetryAfter c then backoff c 1
                       else if maxRetryAfter c \<le> 0 then d
                       else min d (maxRetryAfter c))]"
proof -
  let ?L = "example_retry :: (retrier, nat \<Rightarrow> Duration) nxretry"
  let ?w = "retry_after_server v"
  let ?r0 = "\<lparr>attempts = 0, limit = maxAttempts c, schedule = backoff c, override = None\<rparr>"
  let ?r1 = "\<lparr>attempts = 1, limit = maxAttempts c, schedule = backoff c, override = None\<rparr>"
  let ?st0 = "\<lparr>bodyOpens = 0, netCalls = 0, waits = [], responses = []\<rparr>"
  let ?resp = "\<lparr>StatusCode = 429, Header = [''Retry-After'' \<mapsto> [v]],
                 Body = Some \<lparr>ReadCloser = \<lparr>script = [(''body'', None)], closeErr = None,
                                             calls = []\<rparr>, eof = False\<rparr>\<rparr>"
  let ?ok = "\<lparr>StatusCode = 200, Header = Map.empty,
                 Body = Some \<lparr>ReadCloser = \<lparr>script = [(''body'', None)], closeErr = None,
                                             calls = []\<rparr>, eof = False\<rparr>\<rparr>"
  let ?st1 = "\<lparr>bodyOpens = 0, netCalls = 1, waits = [0], responses = []\<rparr>"
  let ?st2 = "\<lparr>bodyOpens = 0, netCalls = 1, waits = [0], responses = [?resp]\<rparr>"
  let ?rty2 = "(case retryAfter (clock ?w (netCalls ?st1)) ?resp of
          Inl err \<Rightarrow> ?r1
        | Inr d \<Rightarrow>
            if minRetryAfter c < d
            then Override ?L (if 0 < maxRetryAfter c \<and> maxRetryAfter c < d
                             then maxRetryAfter c else d) ?r1
            else ?r1)"
  let ?d = "(case ParseRetryAfter no_dates v of
                     Inl err \<Rightarrow> backoff c 1
                   | Inr d \<Rightarrow>
                       if d \<le> minRetryAfter c then backoff c 1
                       else if maxRetryAfter c \<le> 0 then d
                       else min d (maxRetryAfter c))"
  have n0: "Next ?L ?r0 = Some (0, ?r1)"
    by (auto simp: example_retry_def retrier_Next_def)
  have q0: "doRequest ?w (?st0\<lparr>waits := waits ?st0 @ [0]\<rparr>) = ((Some ?resp, None), ?st1)"
    by (simp add: doRequest_def retry_after_server_def server_def respond_def)
  have h0: "(case onErrorResponse c of None \<Rightarrow> (None, ?resp) | Some hook \<Rightarrow> hook ?resp)
      = (None, ?resp)"
    using assms(2) by simp
  have s1: "Do_loop (Suc (Suc fuel)) ?L c ?w ?r0 None None ?st0
      = Do_loop (Suc fuel) ?L c ?w ?rty2 (Some ?resp) None ?st2"
    using Do_loop_retry [OF n0 q0 _ h0, of "Suc fuel" None None] by simp
  have ra: "retryAfter (clock ?w (netCalls ?st1)) ?resp = ParseRetryAfter no_dates v"
    by (simp add: retryAfter_def httpheader_Get_def retry_after_server_def server_def)
  have n1: "Next ?L ?rty2 = Some (?d, ?r1\<lparr>attempts := 2, override := None\<rparr>)"
    unfolding ra using assms(1)
    by (auto simp: example_retry_def retrier_Next_def min_def split: sum.split)
  have q1: "doRequest ?w (?st2\<lparr>waits := waits ?st2 @ [?d]\<rparr>)
      = ((Some ?ok, None), \<lparr>bodyOpens = 0, netCalls = 2, waits = [0, ?d], responses = [?resp]\<rparr>)"
    by (simp add: doRequest_def retry_after_server_def server_def respond_def)
  have s2: "Do_loop (Suc fuel) ?L c ?w ?rty2 (Some ?resp) None ?st2
      = Some (Return (Some ?ok) None,
              \<lparr>bodyOpens = 0, netCalls = 2, waits = [0, ?d], responses = [?resp, ?ok]\<rparr>)"
    using Do_loop_2xx [OF n1 q1, of fuel c "Some ?resp" None] by simp
  have "Do (Suc (Suc fuel)) ?L c ?w = Some (Return (Some ?ok) None,
              \<lparr>bodyOpens = 0, netCalls = 2, waits = [0, ?d], responses = [?resp, ?ok]\<rparr>)"
    using s1 s2 by (simp add: Do_def retry_after_server_def server_def example_retry_def)
  then show ?thesis by simp
qed

text \<open>
  C3, amended. When \<open>Do\<close> goes on after a response whose status is not 2xx (and
  \<open>onErrorResponse\<close>, if set, returned nil), it parses the \<open>Retry-After\<close> header of the
  response. If the header parses to a duration \<open>d\<close> above the configured minimum
  (default 3 s), the retrier's next delay is overridden with \<open>d\<close>, lowered to the
  configured maximum (default 30 s) when that maximum is positive and \<open>d\<close> exceeds it;
  a maximum of zero or less leaves \<open>d\<close> as it is. If \<open>d\<close> does not exceed the
  minimum, or the header is malformed, nothing is overridden, the backoff's delay is
  used and the attempt does not fail. With a retrier that honours the override, a 429
  with \<open>Retry-After: v\<close> followed by a 200 makes exactly that wait before the second
  attempt: 5 s for \<open>5\<close>, the backoff's delay for \<open>1\<close> and for a malformed value, with
  the default bounds.
\<close>

theorem C3_Retry_After_overrides_next_delay:
  "(Next L rty = Some (d0, rty1)
    \<and> doRequest w (st\<lparr>waits := waits st @ [d0]\<rparr>) = ((Some resp, None), st1)
    \<and> \<not> (200 \<le> StatusCode resp \<and> StatusCode resp \<le> 299)
    \<and> (case onErrorResponse c of None \<Rightarrow> (None, resp) | Some hook \<Rightarrow> hook resp) = (None, resp')
    \<longrightarrow>
    Do_loop (Suc fuel) L c w rty r doErr st =
      Do_loop fuel L c w
        (case retryAfter (clock w (netCalls st1)) resp' of
           Inl err \<Rightarrow> rty1
         | Inr d \<Rightarrow>
             if d \<le> minRetryAfter c then rty1
             else if maxRetryAfter c \<le> 0 then Override L d rty1
             else Override L (min d (maxRetryAfter c)) rty1)
        (Some resp') None (st1\<lparr>responses := responses st1 @ [resp']\<rparr>))
   \<and> (maxAttempts c' \<noteq> 1 \<and> onErrorResponse c' = None \<longrightarrow>
        (\<exists>r st. Do (Suc (Suc fuel)) example_retry c' (retry_after_server v)
                  = Some (Return (Some r) None, st)
              \<and> StatusCode r = 200 \<and> netCalls st = 2
              \<and> waits st =
                  [0, (case ParseRetryAfter no_dates v of
                         Inl err \<Rightarrow> backoff c' 1
                       | Inr d \<Rightarrow>
                           if d \<le> minRetryAfter c' then backoff c' 1
                           else if maxRetryAfter c' \<le> 0 then d
                           else min d (maxRetryAfter c'))]))"
proof -
  have a: "Do_loop (Suc fuel) L c w rty r doErr st =
      Do_loop fuel L c w
        (case retryAfter (clock w (netCalls st1)) resp' of
           Inl err \<Rightarrow> rty1
         | Inr d \<Rightarrow>
             if d \<le> minRetryAfter c then rty1
             else if maxRetryAfter c \<le> 0 then Override L d rty1
             else Override L (min d (maxRetryAfter c)) rty1)
        (Some resp') None (st1\<lparr>responses := responses st1 @ [resp']\<rparr>)"
    if h: "Next L rty = Some (d0, rty1)"
      "doRequest w (st\<lparr>waits := waits st @ [d0]\<rparr>) = ((Some resp, None), st1)"
      "\<not> (200 \<le> StatusCode resp \<and> StatusCode resp \<le> 299)"
      "(case onErrorResponse c of None \<Rightarrow> (None, resp) | Some hook \<Rightarrow> hook resp) = (None, resp')"
  proof -
    have eq: "(case retryAfter (clock w (netCalls st1)) resp' of
          Inl err \<Rightarrow> rty1
        | Inr d \<Rightarrow>
            if minRetryAfter c < d
            then Override L (if 0 < maxRetryAfter c \<and> maxRetryAfter c < d
                             then maxRetryAfter c else d) rty1
            else rty1)
       = (case retryAfter (clock w (netCalls st1)) resp' of
           Inl err \<Rightarrow> rty1
         | Inr d \<Rightarrow>
             if d \<le> minRetryAfter c then rty1
             else if maxRetryAfter c \<le> 0 then Override L d rty1
             else Override L (min d (maxRetryAfter c)) rty1)"
      by (auto simp: min_def split: sum.split)
    show ?thesis
      using Do_loop_retry [OF h, of fuel r doErr] unfolding eq .
  qed
  from a Do_retry_after_server [of c' fuel v] show ?thesis by blast
qed

theorem C3_Retry_After_overrides_next_delay_witness:
  "maxAttempts (default_options\<lparr>backoff := (\<lambda>n. 2 * Second)\<rparr>) \<noteq> 1 \<and> onErrorResponse (default_options\<lparr>backoff := (\<lambda>n. 2 * Second)\<rparr>) = None
   \<and> (\<exists>r st. Do 10 example_retry (default_options\<lparr>backoff := (\<lambda>n. 2 * Second)\<rparr>) (retry_after_server ''5'') = Some (Return (Some r) None, st)
          \<and> StatusCode r = 200 \<and> netCalls st = 2 \<and> waits st = [0, 5 * Second])
   \<and> (\<exists>r st. Do 10 example_retry (default_options\<lparr>backoff := (\<lambda>n. 2 * Second)\<rparr>) (retry_after_server ''1'') = Some (Return (Some r) None, st)
          \<and> StatusCode r = 200 \<and> netCalls st = 2 \<and> waits st = [0, 2 * Second])
   \<and> (\<exists>r st. Do 10 example_retry (default_options\<lparr>backoff := (\<lambda>n. 2 * Second)\<rparr>) (retry_after_server ''soon'') = Some (Return (Some r) None, st)
          \<and> StatusCode r = 200 \<and> netCalls st = 2 \<and> waits st = [0, 2 * Second])
   \<and> (\<exists>r st. Do 10 example_retry (default_options\<lparr>backoff := (\<lambda>n. 2 * Second)\<rparr>) (retry_after_server ''60'') = Some (Return (Some r) None, st)
          \<and> StatusCode r = 200 \<and> netCalls st = 2 \<and> waits st = [0, 30 * Second])
   \<and> Next example_retry \<lparr>attempts = 0, limit = 3, schedule = (\<lambda>n. 2 * Second), override = None\<rparr>
       = Some (0, \<lparr>attempts = 1, limit = 3, schedule = (\<lambda>n. 2 * Second), override = None\<rparr>)
   \<and> doRequest (retry_after_server ''5'')
         (\<lparr>bodyOpens = 0, netCalls = 0, waits = [], responses = []\<rparr>
            \<lparr>waits := waits \<lparr>bodyOpens = 0, netCalls = 0, waits = [], responses = []\<rparr> @ [0]\<rparr>)
       = ((Some \<lparr>StatusCode = 429, Header = [''Retry-After'' \<mapsto> [''5'']],
          Body = Some \<lparr>ReadCloser = \<lparr>script = [(''body'', None)], closeErr = None, calls = []\<rparr>,
                       eof = False\<rparr>\<rparr>, None), \<lparr>bodyOpens = 0, netCalls = 1, waits = [0], responses = []\<rparr>)
   \<and> \<not> (200 \<le> StatusCode \<lparr>StatusCode = 429, Header = [''Retry-After'' \<mapsto> [''5'']],
          Body = Some \<lparr>ReadCloser = \<lparr>script = [(''body'', None)], closeErr = None, calls = []\<rparr>,
                       eof = False\<rparr>\<rparr> \<and> StatusCode \<lparr>StatusCode = 429, Header = [''Retry-After'' \<mapsto> [''5'']],
          Body = Some \<lparr>ReadCloser = \<lparr>script = [(''body'', None)], closeErr = None, calls = []\<rparr>,
                       eof = False\<rparr>\<rparr> \<le> 299)
   \<and> (case onErrorResponse (default_options\<lparr>backoff := (\<lambda>n. 2 * Second)\<rparr>) of None \<Rightarrow> (None, \<lparr>StatusCode = 429, Header = [''Retry-After'' \<mapsto> [''5'']],
          Body = Some \<lparr>ReadCloser = \<lparr>script = [(''body'', None)], closeErr = None, calls = []\<rparr>,
                       eof = False\<rparr>\<rparr>) | Some hook \<Rightarrow> hook \<lparr>StatusCode = 429, Header = [''Retry-After'' \<mapsto> [''5'']],
          Body = Some \<lparr>ReadCloser = \<lparr>script = [(''body'', None)], closeErr = None, calls = []\<rparr>,
                       eof = False\<rparr>\<rparr>) = (None, \<lparr>StatusCode = 429, Header = [''Retry-After'' \<mapsto> [''5'']],
          Body = Some \<lparr>ReadCloser = \<lparr>script = [(''body'', None)], closeErr = None, calls = []\<rparr>,
                       eof = False\<rparr>\<rparr>)
   \<and> Do_loop (Suc 8) example_retry (default_options\<lparr>backoff := (\<lambda>n. 2 * Second)\<rparr>) (retry_after_server ''5'')
         \<lparr>attempts = 0, limit = 3, schedule = (\<lambda>n. 2 * Second), override = None\<rparr> None None
         \<lparr>bodyOpens = 0, netCalls = 0, waits = [], responses = []\<rparr>
       = Do_loop 8 example_retry (default_options\<lparr>backoff := (\<lambda>n. 2 * Second)\<rparr>) (retry_after_server ''5'')
           (Override example_retry (5 * Second)
              \<lparr>attempts = 1, limit = 3, schedule = (\<lambda>n. 2 * Second), override = None\<rparr>)
           (Some \<lparr>StatusCode = 429, Header = [''Retry-After'' \<mapsto> [''5'']],
          Body = Some \<lparr>ReadCloser = \<lparr>script = [(''body'', None)], closeErr = None, calls = []\<rparr>,
                       eof = False\<rparr>\<rparr>) None
           \<lparr>bodyOpens = 0, netCalls = 1, waits = [0], responses = [\<lparr>StatusCode = 429, Header = [''Retry-After'' \<mapsto> [''5'']],
          Body = Some \<lparr>ReadCloser = \<lparr>script = [(''body'', None)], closeErr = None, calls = []\<rparr>,
                       eof = False\<rparr>\<rparr>]\<rparr>"
proof -
  let ?opts = "(default_options\<lparr>backoff := (\<lambda>n. 2 * Second)\<rparr>)"
  let ?resp = "\<lparr>StatusCode = 429, Header = [''Retry-After'' \<mapsto> [''5'']],
          Body = Some \<lparr>ReadCloser = \<lparr>script = [(''body'', None)], closeErr = None, calls = []\<rparr>,
                       eof = False\<rparr>\<rparr>"
  let ?r0 = "\<lparr>attempts = 0, limit = 3, schedule = (\<lambda>n. 2 * Second), override = None\<rparr>"
  let ?r1 = "\<lparr>attempts = 1, limit = 3, schedule = (\<lambda>n. 2 * Second), override = None\<rparr>"
  let ?st0 = "\<lparr>bodyOpens = 0, netCalls = 0, waits = [], responses = []\<rparr>"
  let ?st1 = "\<lparr>bodyOpens = 0, netCalls = 1, waits = [0], responses = []\<rparr>"
  note parse = ParseRetryAfter_def ParseInt_def is_digit_def digits_val_def wrap64_def Second_def
    no_dates_def default_options_def
  have h: "maxAttempts ?opts \<noteq> 1 \<and> onErrorResponse ?opts = None"
    by (simp add: default_options_def)
  have e5: "\<exists>r st. Do 10 example_retry ?opts (retry_after_server ''5'') = Some (Return (Some r) None, st)
          \<and> StatusCode r = 200 \<and> netCalls st = 2 \<and> waits st = [0, 5 * Second]"
    using C3_Retry_After_overrides_next_delay [where c' = ?opts and v = "''5''" and fuel = 8,
        THEN conjunct2, THEN mp, OF h]
    by (simp add: parse)
  have e1: "\<exists>r st. Do 10 example_retry ?opts (retry_after_server ''1'') = Some (Return (Some r) None, st)
          \<and> StatusCode r = 200 \<and> netCalls st = 2 \<and> waits st = [0, 2 * Second]"
    using C3_Retry_After_overrides_next_delay [where c' = ?opts and v = "''1''" and fuel = 8,
        THEN conjunct2, THEN mp, OF h]
    by (simp add: parse)
  have es: "\<exists>r st. Do 10 example_retry ?opts (retry_after_server ''soon'') = Some (Return (Some r) None, st)
          \<and> StatusCode r = 200 \<and> netCalls st = 2 \<and> waits st = [0, 2 * Second]"
    using C3_Retry_After_overrides_next_delay [where c' = ?opts and v = "''soon''" and fuel = 8,
        THEN conjunct2, THEN mp, OF h]
    by (simp add: parse)
  have e60: "\<exists>r st. Do 10 example_retry ?opts (retry_after_server ''60'') = Some (Return (Some r) None, st)
          \<and> StatusCode r = 200 \<and> netCalls st = 2 \<and> waits st = [0, 30 * Second]"
    using C3_Retry_After_overrides_next_delay [where c' = ?opts and v = "''60''" and fuel = 8,
        THEN conjunct2, THEN mp, OF h]
    by (simp add: parse)
  have n0: "Next example_retry ?r0 = Some (0, ?r1)"
    by (simp add: example_retry_def retrier_Next_def)
  have q0: "doRequest (retry_after_server ''5'') (?st0\<lparr>waits := waits ?st0 @ [0]\<rparr>)
       = ((Some ?resp, None), ?st1)"
    by (simp add: doRequest_def retry_after_server_def server_def respond_def)
  have s0: "\<not> (200 \<le> StatusCode ?resp \<and> StatusCode ?resp \<le> 299)"
    by simp
  have k0: "(case onErrorResponse ?opts of None \<Rightarrow> (None, ?resp) | Some hook \<Rightarrow> hook ?resp) = (None, ?resp)"
    by (simp add: default_options_def)
  have ra: "retryAfter (clock (retry_after_server ''5'') (netCalls ?st1)) ?resp = Inr (5 * Second)"
    by (simp add: retryAfter_def httpheader_Get_def retry_after_server_def server_def parse)
  have step: "Do_loop (Suc 8) example_retry ?opts (retry_after_server ''5'') ?r0 None None ?st0
       = Do_loop 8 example_retry ?opts (retry_after_server ''5'')
           (Override example_retry (5 * Second) ?r1) (Some ?resp) None
           \<lparr>bodyOpens = 0, netCalls = 1, waits = [0], responses = [?resp]\<rparr>"
    using C3_Retry_After_overrides_next_delay [where c = ?opts and fuel = 8 and r = None
        and doErr = None, THEN conjunct1, THEN mp, OF conjI [OF n0 conjI [OF q0 conjI [OF s0 k0]]]]
    unfolding ra by (simp add: default_options_def Second_def)
  from h e5 e1 es e60 n0 q0 s0 k0 step show ?thesis by blast
qed

text \<open>
  C9, as stated, fails: an error of the body-opening function is not always permanent.
  It is wrapped in a \<open>RequestError\<close> and handled like a transport error, and a
  timeout is retried: when the first opening fails with
  \<open>context.DeadlineExceeded\<close>, \<open>Do\<close> opens the body a second time, sends the request
  and returns the server's 200; the error is never returned.
\<close>

theorem C9_body_open_timeout_is_retried:
  "\<exists>r st. Do 10 example_retry default_options (failing_body DeadlineExceeded)
            = Some (Return (Some r) None, st)
        \<and> StatusCode r = 200 \<and> bodyOpens st = 2 \<and> netCalls st = 1"
  by (simp add: Do_eval)

lemma isTimeout_RequestError: "isTimeout (RequestError e) = isTimeout e"
  by (simp add: isTimeout_def)

text \<open>
  C9, amended. In an attempt in which the request's body-opening function returns an
  error, no network call is made. The error, wrapped in a \<open>RequestError\<close>, is given to
  the \<open>onError\<close> hook like any transport error: the loop goes on to the next attempt
  when the hook returns nil or an error that is a timeout (\<open>context.DeadlineExceeded\<close>
  or an error with a \<open>Timeout\<close> method that returns true, anywhere in the chain of
  wrapped errors), and otherwise stops and returns a nil response with the hook's
  error. The wrapping does not change whether the error is a timeout. With the default
  hook, which returns its argument, an opening error that is not a timeout is permanent:
  \<open>Do\<close> returns it at once, the body opened once and no network call made; an opening
  error that is a timeout is retried.
\<close>

theorem C9_body_open_error_goes_through_onError:
  "(Next L rty = Some (d0, rty1) \<and> openBody w = Some body \<and> body (bodyOpens st) = Some e
    \<longrightarrow>
    doRequest w (st\<lparr>waits := waits st @ [d0]\<rparr>)
      = ((None, Some (RequestError e)),
         st\<lparr>waits := waits st @ [d0], bodyOpens := bodyOpens st + 1\<rparr>)
    \<and> Do_loop (Suc fuel) L c w rty r doErr st =
        (case onError c (RequestError e) of
           None \<Rightarrow>
             Do_loop fuel L c w rty1 None None
               (st\<lparr>waits := waits st @ [d0], bodyOpens := bodyOpens st + 1\<rparr>)
         | Some e' \<Rightarrow>
             if isTimeout e'
             then Do_loop fuel L c w rty1 None (Some e')
                    (st\<lparr>waits := waits st @ [d0], bodyOpens := bodyOpens st + 1\<rparr>)
             else Some (Return None (Some e'),
                        st\<lparr>waits := waits st @ [d0], bodyOpens := bodyOpens st + 1\<rparr>)))
   \<and> isTimeout (RequestError e) = isTimeout e
   \<and> (\<not> isTimeout e \<longrightarrow>
        Do (Suc fuel) example_retry default_options (failing_body e)
          = Some (Return None (Some (RequestError e)),
                  \<lparr>bodyOpens = 1, netCalls = 0, waits = [0], responses = []\<rparr>))
   \<and> (isTimeout e \<longrightarrow>
        (\<exists>r st. Do (Suc (Suc fuel)) example_retry default_options (failing_body e)
                  = Some (Return (Some r) None, st)
              \<and> StatusCode r = 200 \<and> bodyOpens st = 2 \<and> netCalls st = 1))"
proof -
  have a: "doRequest w (st\<lparr>waits := waits st @ [d0]\<rparr>)
      = ((None, Some (RequestError e)),
         st\<lparr>waits := waits st @ [d0], bodyOpens := bodyOpens st + 1\<rparr>)"
    if "openBody w = Some body" "body (bodyOpens st) = Some e"
    using that by (simp add: doRequest_def)
  have b: "Do_loop (Suc fuel) L c w rty r doErr st =
        (case onError c (RequestError e) of
           None \<Rightarrow>
             Do_loop fuel L c w rty1 None None
               (st\<lparr>waits := waits st @ [d0], bodyOpens := bodyOpens st + 1\<rparr>)
         | Some e' \<Rightarrow>
             if isTimeout e'
             then Do_loop fuel L c w rty1 None (Some e')
                    (st\<lparr>waits := waits st @ [d0], bodyOpens := bodyOpens st + 1\<rparr>)
             else Some (Return None (Some e'),
                        st\<lparr>waits := waits st @ [d0], bodyOpens := bodyOpens st + 1\<rparr>))"
    if "Next L rty = Some (d0, rty1)" "openBody w = Some body" "body (bodyOpens st) = Some e"
    using Do_loop_error [OF that(1) a [OF that(2,3)]] .
  have c: "Do (Suc fuel) example_retry default_options (failing_body e)
          = Some (Return None (Some (RequestError e)),
                  \<lparr>bodyOpens = 1, netCalls = 0, waits = [0], responses = []\<rparr>)"
    if "\<not> isTimeout e"
    using that
    by (simp add: Do_def example_retry_def retrier_Next_def default_options_def failing_body_def
        doRequest_def isTimeout_RequestError)
  have d: "\<exists>r st. Do (Suc (Suc fuel)) example_retry default_options (failing_body e)
                  = Some (Return (Some r) None, st)
              \<and> StatusCode r = 200 \<and> bodyOpens st = 2 \<and> netCalls st = 1"
    if "isTimeout e"
    using that
    by (simp add: Do_def example_retry_def retrier_Next_def default_options_def failing_body_def
        doRequest_def isTimeout_RequestError respond_def)
  from a b c d isTimeout_RequestError show ?thesis by blast
qed

theorem C9_body_open_error_goes_through_onError_witness:
  "Next example_retry \<lparr>attempts = 0, limit = 3, schedule = exponential, override = None\<rparr>
     = Some (0, \<lparr>attempts = 1, limit = 3, schedule = exponential, override = None\<rparr>)
   \<and> openBody (failing_body (Plain ''seek failed''))
       = Some (\<lambda>k. if k = 0 then Some (Plain ''seek failed'') else None)
   \<and> (\<lambda>k. if k = 0 then Some (Plain ''seek failed'') else None)
         (bodyOpens \<lparr>bodyOpens = 0, netCalls = 0, waits = [], responses = []\<rparr>)
       = Some (Plain ''seek failed'')
   \<and> Do_loop (Suc 8) example_retry default_options (failing_body (Plain ''seek failed''))
         \<lparr>attempts = 0, limit = 3, schedule = exponential, override = None\<rparr> None None
         \<lparr>bodyOpens = 0, netCalls = 0, waits = [], responses = []\<rparr>
       = Some (Return None (Some (RequestError (Plain ''seek failed''))),
               \<lparr>bodyOpens = 1, netCalls = 0, waits = [0], responses = []\<rparr>)
   \<and> \<not> isTimeout (Plain ''seek failed'')
   \<and> Do 9 example_retry default_options (failing_body (Plain ''seek failed''))
       = Some (Return None (Some (RequestError (Plain ''seek failed''))),
               \<lparr>bodyOpens = 1, netCalls = 0, waits = [0], responses = []\<rparr>)
   \<and> isTimeout (HasTimeout ''i/o timeout'' True)
   \<and> (\<exists>r st. Do 10 example_retry default_options (failing_body (HasTimeout ''i/o timeout'' True))
                = Some (Return (Some r) None, st)
            \<and> StatusCode r = 200 \<and> bodyOpens st = 2 \<and> netCalls st = 1)"
proof -
  let ?e = "Plain ''seek failed''"
  let ?t = "HasTimeout ''i/o timeout'' True"
  let ?r0 = "\<lparr>attempts = 0, limit = 3, schedule = exponential, override = None\<rparr>"
  let ?r1 = "\<lparr>attempts = 1, limit = 3, schedule = exponential, override = None\<rparr>"
  let ?st0 = "\<lparr>bodyOpens = 0, netCalls = 0, waits = [], responses = []\<rparr>"
  let ?b = "\<lambda>k::nat. if k = 0 then Some ?e else None"
  have n0: "Next example_retry ?r0 = Some (0, ?r1)"
    by (simp add: example_retry_def retrier_Next_def)
  have ob: "openBody (failing_body ?e) = Some ?b"
    by (simp add: failing_body_def)
  have b0: "?b (bodyOpens ?st0) = Some ?e"
    by simp
  have nt: "\<not> isTimeout ?e"
    by (simp add: isTimeout_def)
  have it: "isTimeout ?t"
    by (simp add: isTimeout_def)
  have step: "Do_loop (Suc 8) example_retry default_options (failing_body ?e) ?r0 None None ?st0
       = Some (Return None (Some (RequestError ?e)),
               \<lparr>bodyOpens = 1, netCalls = 0, waits = [0], responses = []\<rparr>)"
    using C9_body_open_error_goes_through_onError [where c = default_options and fuel = 8
        and r = None and doErr = None, THEN conjunct1, THEN mp,
        OF conjI [OF n0 conjI [OF ob b0]], THEN conjunct2]
    by (simp add: default_options_def isTimeout_def)
  have perm: "Do 9 example_retry default_options (failing_body ?e)
       = Some (Return None (Some (RequestError ?e)),
               \<lparr>bodyOpens = 1, netCalls = 0, waits = [0], responses = []\<rparr>)"
    using C9_body_open_error_goes_through_onError [where e = ?e and fuel = 8,
        THEN conjunct2, THEN conjunct2, THEN conjunct1, THEN mp, OF nt]
    by simp
  have retried: "\<exists>r st. Do 10 example_retry default_options (failing_body ?t)
                = Some (Return (Some r) None, st)
            \<and> StatusCode r = 200 \<and> bodyOpens st = 2 \<and> netCalls st = 1"
    using C9_body_open_error_goes_through_onError [where e = ?t and fuel = 8,
        THEN conjunct2, THEN conjunct2, THEN conjunct2, THEN mp, OF it]
    by simp
  from n0 ob b0 step nt perm it retried show ?thesis by blast
qed

end
